theory Spec2Isabelle
  imports Complex_Main "HOL-Library.AList" "HOL-Library.Sublist"
begin

section \<open>Python values as the market client sees them\<close>

text \<open>
  The client in \<^verbatim>\<open>steampy/market.py\<close> works on decoded JSON bodies.  A decoded body is
  one of Python's \<^verbatim>\<open>None\<close>, \<^verbatim>\<open>bool\<close>, \<^verbatim>\<open>int\<close>, \<^verbatim>\<open>str\<close>, \<^verbatim>\<open>list\<close> or \<^verbatim>\<open>dict\<close> values; a
  dictionary is kept as an association list whose first binding of a key is the one that
  counts, so that the insertion order of Python dictionaries is retained.  JSON numbers
  with a fractional part are left out of the model.
\<close>

datatype json =
    JNull
  | JBool bool
  | JInt int
  | JStr string
  | JList "json list"
  | JObj "(string \<times> json) list"

text \<open>
  Exceptions are values.  \<open>ApiException\<close> and \<open>TooManyRequests\<close> are the two classes the
  module imports from \<^verbatim>\<open>steampy.exceptions\<close>; \<open>KeyError\<close>, \<open>TypeError\<close> and \<open>AttributeError\<close>
  are the built-in ones that the dictionary accesses of the module can raise; every other
  exception (transport failures, decoding failures, \<^verbatim>\<open>decimal\<close> signals) is an
  \<open>OtherException\<close>.  Each carries the text that \<^verbatim>\<open>str(e)\<close> gives, except \<open>KeyError\<close>, which
  carries the key.  \<open>NotLoggedIn\<close> is what the login guard raises; its text is the one the
  guard gives it, \<^verbatim>\<open>Use login method first\<close>.  The texts of the built-in exceptions are those
  of CPython 3.11.
\<close>

datatype exn =
    ApiException string
  | TooManyRequests string
  | NotLoggedIn
  | KeyError string
  | TypeError string
  | AttributeError string
  | OtherException string

fun exn_str :: "exn \<Rightarrow> string" where
  "exn_str (ApiException m) = m"
| "exn_str (TooManyRequests m) = m"
| "exn_str NotLoggedIn = ''Use login method first''"
| "exn_str (KeyError k) = [CHR 0x27] @ k @ [CHR 0x27]"
| "exn_str (TypeError m) = m"
| "exn_str (AttributeError m) = m"
| "exn_str (OtherException m) = m"

subsection \<open>Truthiness, equality with an integer, text of a value\<close>

fun truthy :: "json \<Rightarrow> bool" where
  "truthy JNull = False"
| "truthy (JBool b) = b"
| "truthy (JInt i) = (i \<noteq> 0)"
| "truthy (JStr s) = (s \<noteq> [])"
| "truthy (JList xs) = (xs \<noteq> [])"
| "truthy (JObj kvs) = (kvs \<noteq> [])"

text \<open>\<^verbatim>\<open>v == n\<close> for an integer literal \<open>n\<close>: \<^verbatim>\<open>True == 1\<close> and \<^verbatim>\<open>False == 0\<close> hold in Python.\<close>

fun py_eq_int :: "json \<Rightarrow> int \<Rightarrow> bool" where
  "py_eq_int (JInt i) n = (i = n)"
| "py_eq_int (JBool b) n = ((if b then 1 else 0) = n)"
| "py_eq_int _ n = False"

fun str_nat :: "nat \<Rightarrow> string" where
  "str_nat n =
     (if n < 10 then [''0123456789'' ! n]
      else str_nat (n div 10) @ [''0123456789'' ! (n mod 10)])"

declare str_nat.simps [simp del]

definition str_int :: "int \<Rightarrow> string" where
  "str_int i = (if i < 0 then CHR ''-'' # str_nat (nat (- i)) else str_nat (nat i))"

fun type_name :: "json \<Rightarrow> string" where
  "type_name JNull = ''NoneType''"
| "type_name (JBool b) = ''bool''"
| "type_name (JInt i) = ''int''"
| "type_name (JStr s) = ''str''"
| "type_name (JList xs) = ''list''"
| "type_name (JObj kvs) = ''dict''"

subsection \<open>What the module uses and does not define\<close>

text \<open>
  The constants and helpers that \<^verbatim>\<open>market.py\<close> imports from \<^verbatim>\<open>steampy.models\<close>,
  \<^verbatim>\<open>steampy.utils\<close> and the standard library are parameters of the model: the theorems hold
  for every choice of them.  \<open>py_repr\<close> is \<^verbatim>\<open>repr\<close> on lists and dictionaries, \<open>py_int\<close> is
  \<^verbatim>\<open>int\<close> on a string, \<open>json_loads\<close> is \<^verbatim>\<open>json.loads\<close>, \<open>quote\<close> is \<^verbatim>\<open>urllib.parse.quote\<close>;
  \<open>decimal_product_other p q\<close> is \<^verbatim>\<open>str(Decimal(p) * Decimal(q))\<close> for a string \<open>p\<close> that is not
  a plain decimal literal (see below).
\<close>

record deps =
  COMMUNITY_URL :: string
  quote :: "string \<Rightarrow> string"
  py_repr :: "json \<Rightarrow> string"
  py_int :: "string \<Rightarrow> exn + int"
  json_loads :: "string \<Rightarrow> exn + json"
  text_between :: "string \<Rightarrow> string \<Rightarrow> string \<Rightarrow> exn + string"
  decimal_product_other :: "string \<Rightarrow> int \<Rightarrow> exn + string"
  get_listing_id_to_assets_address_from_html :: "json \<Rightarrow> exn + json"
  get_market_listings_from_html :: "string \<Rightarrow> exn + json"
  get_market_sell_listings_from_api :: "json \<Rightarrow> exn + json"
  merge_items_with_descriptions_from_listing :: "json \<Rightarrow> json \<Rightarrow> json \<Rightarrow> exn + json"

record game_options =
  app_id :: string
  context_id :: string

record currency =
  currency_value :: json

section \<open>\<^verbatim>\<open>decimal.Decimal\<close>: construction, product, text\<close>

text \<open>
  A finite \<^verbatim>\<open>Decimal\<close> is a sign, a coefficient and an exponent (\<^verbatim>\<open>_sign\<close>, \<^verbatim>\<open>_int\<close>, \<^verbatim>\<open>_exp\<close>);
  its value is \<open>\<plusminus> coefficient \<times> 10^exponent\<close>.  The module uses the default context:
  precision 28, rounding half-even, exponents between -999999 and 999999, with the
  \<^verbatim>\<open>Overflow\<close> signal trapped and \<^verbatim>\<open>Inexact\<close>, \<^verbatim>\<open>Rounded\<close>, \<^verbatim>\<open>Subnormal\<close>, \<^verbatim>\<open>Underflow\<close> and \<^verbatim>\<open>Clamped\<close>
  not trapped.
\<close>

record decimal =
  dsign :: bool
  dint :: nat
  dexp :: int

definition prec :: int where "prec = 28"
definition Emax :: int where "Emax = 999999"
definition Emin :: int where "Emin = - 999999"
definition Etiny :: int where "Etiny = Emin - prec + 1"
definition Etop :: int where "Etop = Emax - prec + 1"

definition is_digit :: "char \<Rightarrow> bool" where
  "is_digit c = (c \<in> set ''0123456789'')"

definition digit_val :: "char \<Rightarrow> nat" where
  "digit_val c = of_char c - 48"

definition int_of_digits :: "string \<Rightarrow> nat" where
  "int_of_digits cs = foldl (\<lambda>a c. 10 * a + digit_val c) 0 cs"

fun split_sign :: "string \<Rightarrow> bool \<times> string" where
  "split_sign [] = (False, [])"
| "split_sign (c # cs) =
     (if c = CHR ''-'' then (True, cs) else if c = CHR ''+'' then (False, cs) else (False, c # cs))"

text \<open>
  \<^verbatim>\<open>Decimal(s)\<close> on a plain decimal literal: an optional sign, digits, an optional point and
  more digits, with a digit somewhere.  The coefficient is the integer that the digits
  spell, the exponent is minus the number of digits after the point.  Any other string
  (an exponent part, surrounding blanks, underscores, infinities, NaNs, or no number at
  all) gives \<open>None\<close> here.
\<close>

definition parse_plain :: "string \<Rightarrow> decimal option" where
  "parse_plain s =
     (let (sg, body) = split_sign s;
          intpart = takeWhile (\<lambda>c. c \<noteq> CHR ''.'') body;
          fracpart = (case dropWhile (\<lambda>c. c \<noteq> CHR ''.'') body of [] \<Rightarrow> [] | p # f \<Rightarrow> f)
      in if list_all is_digit (intpart @ fracpart) \<and> intpart @ fracpart \<noteq> []
         then Some \<lparr>dsign = sg, dint = int_of_digits (intpart @ fracpart),
                    dexp = - int (length fracpart)\<rparr>
         else None)"

text \<open>\<^verbatim>\<open>Decimal(q)\<close> on an integer is exact.\<close>

definition dec_of_int :: "int \<Rightarrow> decimal" where
  "dec_of_int q = \<lparr>dsign = (q < 0), dint = nat \<bar>q\<bar>, dexp = 0\<rparr>"

definition num_digits :: "nat \<Rightarrow> nat" where
  "num_digits n = length (str_nat n)"

text \<open>
  Half-even rounding when the last \<open>k\<close> digits of the coefficient \<open>c\<close> are dropped: up when
  the dropped part is more than half a unit of the kept part, or exactly half and the kept
  part is odd.
\<close>

definition round_up :: "nat \<Rightarrow> nat \<Rightarrow> bool" where
  "round_up c k =
     (let r = c mod 10 ^ k; q = c div 10 ^ k; half = 5 * 10 ^ (k - 1)
      in r > half \<or> (r = half \<and> odd q))"

text \<open>\<^verbatim>\<open>Decimal._fix\<close>: bring a result into the context (round to 28 digits, keep the exponent in range).\<close>

definition dec_fix :: "decimal \<Rightarrow> exn + decimal" where
  "dec_fix d =
     (if dint d = 0 then Inr (d\<lparr>dexp := min (max (dexp d) Etiny) Emax\<rparr>)
      else
        let len = int (num_digits (dint d));
            exp_min0 = len + dexp d - prec
        in
        if exp_min0 > Etop then Inl (OtherException ''decimal.Overflow'')
        else
          let exp_min = (if exp_min0 < Etiny then Etiny else exp_min0) in
          if dexp d < exp_min then
            let digits = len + dexp d - exp_min;
                c = (if digits < 0 then 1 else dint d);
                k = (if digits < 0 then 1 else nat (len - digits));
                up = round_up c k;
                coeff = (if up then c div 10 ^ k + 1 else c div 10 ^ k);
                carry = (up \<and> int (num_digits coeff) > prec);
                coeff' = (if carry then coeff div 10 else coeff);
                exp_min' = (if carry then exp_min + 1 else exp_min)
            in
            if exp_min' > Etop then Inl (OtherException ''decimal.Overflow'')
            else Inr \<lparr>dsign = dsign d, dint = coeff', dexp = exp_min'\<rparr>
          else Inr d)"

text \<open>\<^verbatim>\<open>Decimal.__mul__\<close> on finite operands.\<close>

definition dec_mul :: "decimal \<Rightarrow> decimal \<Rightarrow> exn + decimal" where
  "dec_mul a b =
     dec_fix \<lparr>dsign = (dsign a \<noteq> dsign b), dint = dint a * dint b, dexp = dexp a + dexp b\<rparr>"

text \<open>\<^verbatim>\<open>Decimal.__str__\<close>: the scientific string of the value.\<close>

definition dec_str :: "decimal \<Rightarrow> string" where
  "dec_str d =
     (let ds = str_nat (dint d);
          n = int (length ds);
          leftdigits = dexp d + n;
          dotplace = (if dexp d \<le> 0 \<and> leftdigits > - 6 then leftdigits else 1);
          intpart = (if dotplace \<le> 0 then ''0''
                     else if dotplace \<ge> n then ds @ replicate (nat (dotplace - n)) (CHR ''0'')
                     else take (nat dotplace) ds);
          fracpart = (if dotplace \<le> 0 then ''.'' @ replicate (nat (- dotplace)) (CHR ''0'') @ ds
                      else if dotplace \<ge> n then []
                      else ''.'' @ drop (nat dotplace) ds);
          ex = (if leftdigits = dotplace then []
                else ''E'' @ (if leftdigits - dotplace \<ge> 0 then ''+'' else [])
                       @ str_int (leftdigits - dotplace))
      in (if dsign d then ''-'' else []) @ intpart @ fracpart @ ex)"

text \<open>The value of a decimal, as a rational number.\<close>

definition dec_val :: "decimal \<Rightarrow> rat" where
  "dec_val d = (if dsign d then - 1 else 1) * of_nat (dint d) * 10 powi (dexp d)"

text \<open>\<^verbatim>\<open>str(Decimal(price_single_item) * Decimal(quantity))\<close>\<close>

definition price_total :: "deps \<Rightarrow> string \<Rightarrow> int \<Rightarrow> exn + string" where
  "price_total D p q =
     (case parse_plain p of
        None \<Rightarrow> decimal_product_other D p q
      | Some d \<Rightarrow> (case dec_mul d (dec_of_int q) of Inl e \<Rightarrow> Inl e | Inr r \<Rightarrow> Inr (dec_str r)))"


text \<open>\<^verbatim>\<open>str(v)\<close>, as an f-string interpolates a value.\<close>

fun py_str :: "deps \<Rightarrow> json \<Rightarrow> string" where
  "py_str D JNull = ''None''"
| "py_str D (JBool b) = (if b then ''True'' else ''False'')"
| "py_str D (JInt i) = str_int i"
| "py_str D (JStr s) = s"
| "py_str D (JList xs) = py_repr D (JList xs)"
| "py_str D (JObj kvs) = py_repr D (JObj kvs)"

subsection \<open>Dictionary access\<close>

text \<open>\<^verbatim>\<open>v.get(k, d)\<close>: only a dictionary has the method.\<close>

fun py_get :: "json \<Rightarrow> string \<Rightarrow> json \<Rightarrow> exn + json" where
  "py_get (JObj kvs) k d = Inr (case map_of kvs k of None \<Rightarrow> d | Some v \<Rightarrow> v)"
| "py_get v k d =
     Inl (AttributeError ([CHR 0x27] @ type_name v @ [CHR 0x27] @ '' object has no attribute ''
        @ [CHR 0x27] @ ''get'' @ [CHR 0x27]))"

text \<open>\<^verbatim>\<open>v[k]\<close> with a string key.\<close>

fun py_subscript :: "json \<Rightarrow> string \<Rightarrow> exn + json" where
  "py_subscript (JObj kvs) k = (case map_of kvs k of None \<Rightarrow> Inl (KeyError k) | Some v \<Rightarrow> Inr v)"
| "py_subscript (JStr s) k =
     Inl (TypeError (''string indices must be integers, not '' @ [CHR 0x27] @ ''str'' @ [CHR 0x27]))"
| "py_subscript (JList xs) k = Inl (TypeError ''list indices must be integers or slices, not str'')"
| "py_subscript v k =
     Inl (TypeError ([CHR 0x27] @ type_name v @ [CHR 0x27] @ '' object is not subscriptable''))"

text \<open>\<^verbatim>\<open>s in v\<close> for a string \<open>s\<close>: substring of a string, member of a list, key of a dictionary.\<close>

fun py_in :: "string \<Rightarrow> json \<Rightarrow> exn + bool" where
  "py_in s (JStr t) = Inr (sublist s t)"
| "py_in s (JList xs) = Inr (JStr s \<in> set xs)"
| "py_in s (JObj kvs) = Inr (s \<in> fst ` set kvs)"
| "py_in s v =
     Inl (TypeError (''argument of type '' @ [CHR 0x27] @ type_name v @ [CHR 0x27]
        @ '' is not iterable''))"

text \<open>Sequencing of computations that may raise.\<close>

definition sum_bind :: "exn + 'a \<Rightarrow> ('a \<Rightarrow> exn + 'b) \<Rightarrow> exn + 'b" where
  "sum_bind r f = (case r of Inl e \<Rightarrow> Inl e | Inr x \<Rightarrow> f x)"

text \<open>\<^verbatim>\<open>d[k] = v\<close> and the operand of \<^verbatim>\<open>**\<close> in a dictionary display.\<close>

fun py_setitem :: "json \<Rightarrow> string \<Rightarrow> json \<Rightarrow> exn + json" where
  "py_setitem (JObj kvs) k v = Inr (JObj (AList.update k v kvs))"
| "py_setitem w k v =
     Inl (TypeError ([CHR 0x27] @ type_name w @ [CHR 0x27]
        @ '' object does not support item assignment''))"

fun as_mapping :: "json \<Rightarrow> exn + (string \<times> json) list" where
  "as_mapping (JObj kvs) = Inr kvs"
| "as_mapping w =
     Inl (TypeError ([CHR 0x27] @ type_name w @ [CHR 0x27] @ '' object is not a mapping''))"

text \<open>
  \<^verbatim>\<open>{**a, **b}\<close>: the bindings of \<open>a\<close>, each overwritten in place by the binding of \<open>b\<close> for the
  same key, followed by the bindings of \<open>b\<close> for new keys in their order.  Only the first
  binding of a key in \<open>b\<close> counts, as everywhere (\<open>clearjunk\<close> drops the others; a decoded
  dictionary has none).
\<close>

definition dict_overlay :: "(string \<times> json) list \<Rightarrow> (string \<times> json) list \<Rightarrow> (string \<times> json) list" where
  "dict_overlay a b = fold (\<lambda>(k, v). AList.update k v) (AList.clearjunk b) a"

text \<open>\<^verbatim>\<open>range(0, stop, step)\<close> for a positive step.\<close>

definition py_range0 :: "int \<Rightarrow> int \<Rightarrow> int list" where
  "py_range0 stop step = map (\<lambda>k. int k * step) [0 ..< nat ((stop + step - 1) div step)]"

section \<open>Effects: the session, the confirmation service, the trace\<close>

text \<open>
  Every call that leaves the process is an event, appended to a trace in the order the
  calls are made.  What the outside answers is given by the session: a function of the
  trace so far and of the request, so that the same request may be answered differently
  the second time.  The confirmation executor (\<^verbatim>\<open>steampy.confirmation\<close>) talks through the
  same session and is an opaque service: its three methods are events of their own.
\<close>

record response =
  status_code :: int
  resp_text :: string
  json_body :: "exn + json"

datatype 'c event =
    HttpGet string
  | HttpPost string "(string \<times> json) list" "(string \<times> string) list"
  | GetConfirmations json json
  | SendConfirmation json json 'c
  | ConfirmSellListing json json string
  | Sleep nat

record 'c session =
  http_get :: "'c event list \<Rightarrow> string \<Rightarrow> exn + response"
  http_post :: "'c event list \<Rightarrow> string \<Rightarrow> (string \<times> json) list \<Rightarrow> (string \<times> string) list
                  \<Rightarrow> exn + response"
  cookies_get_dict :: "'c event list \<Rightarrow> string \<Rightarrow> (string \<times> string) list"
  ce_get_confirmations :: "'c event list \<Rightarrow> json \<Rightarrow> json \<Rightarrow> exn + 'c list"
  ce_send_confirmation :: "'c event list \<Rightarrow> json \<Rightarrow> json \<Rightarrow> 'c \<Rightarrow> exn + json"
  ce_confirm_sell_listing :: "'c event list \<Rightarrow> json \<Rightarrow> json \<Rightarrow> string \<Rightarrow> exn + json"

type_synonym ('c, 'a) io = "'c event list \<Rightarrow> (exn + 'a) \<times> 'c event list"

definition io_return :: "'a \<Rightarrow> ('c, 'a) io" where
  "io_return x = (\<lambda>tr. (Inr x, tr))"

definition io_raise :: "exn \<Rightarrow> ('c, 'a) io" where
  "io_raise e = (\<lambda>tr. (Inl e, tr))"

definition io_lift :: "exn + 'a \<Rightarrow> ('c, 'a) io" where
  "io_lift r = (\<lambda>tr. (r, tr))"

definition io_bind :: "('c, 'a) io \<Rightarrow> ('a \<Rightarrow> ('c, 'b) io) \<Rightarrow> ('c, 'b) io" where
  "io_bind m f = (\<lambda>tr. case m tr of (Inl e, tr') \<Rightarrow> (Inl e, tr') | (Inr x, tr') \<Rightarrow> f x tr')"

text \<open>\<^verbatim>\<open>try: m except ...: h\<close>\<close>

definition io_catch :: "('c, 'a) io \<Rightarrow> (exn \<Rightarrow> ('c, 'a) io) \<Rightarrow> ('c, 'a) io" where
  "io_catch m h = (\<lambda>tr. case m tr of (Inl e, tr') \<Rightarrow> h e tr' | (Inr x, tr') \<Rightarrow> (Inr x, tr'))"

definition session_get :: "'c session \<Rightarrow> string \<Rightarrow> ('c, response) io" where
  "session_get S url = (\<lambda>tr. (http_get S tr url, tr @ [HttpGet url]))"

definition session_post ::
  "'c session \<Rightarrow> string \<Rightarrow> (string \<times> json) list \<Rightarrow> (string \<times> string) list \<Rightarrow> ('c, response) io" where
  "session_post S url data headers =
     (\<lambda>tr. (http_post S tr url data headers, tr @ [HttpPost url data headers]))"

definition response_json :: "response \<Rightarrow> ('c, json) io" where
  "response_json r = io_lift (json_body r)"

definition get_confirmations :: "'c session \<Rightarrow> json \<Rightarrow> json \<Rightarrow> ('c, 'c list) io" where
  "get_confirmations S secret steamid =
     (\<lambda>tr. (ce_get_confirmations S tr secret steamid, tr @ [GetConfirmations secret steamid]))"

definition send_confirmation :: "'c session \<Rightarrow> json \<Rightarrow> json \<Rightarrow> 'c \<Rightarrow> ('c, json) io" where
  "send_confirmation S secret steamid c =
     (\<lambda>tr. (ce_send_confirmation S tr secret steamid c, tr @ [SendConfirmation secret steamid c]))"

definition executor_confirm_sell_listing ::
  "'c session \<Rightarrow> json \<Rightarrow> json \<Rightarrow> string \<Rightarrow> ('c, json) io" where
  "executor_confirm_sell_listing S secret steamid asset_id =
     (\<lambda>tr. (ce_confirm_sell_listing S tr secret steamid asset_id,
            tr @ [ConfirmSellListing secret steamid asset_id]))"

definition session_cookies :: "'c session \<Rightarrow> string \<Rightarrow> ('c, (string \<times> string) list) io" where
  "session_cookies S domain = (\<lambda>tr. (Inr (cookies_get_dict S tr domain), tr))"

definition sleep :: "nat \<Rightarrow> ('c, unit) io" where
  "sleep n = (\<lambda>tr. (Inr (), tr @ [Sleep n]))"

section \<open>The class \<^verbatim>\<open>SteamMarket\<close>\<close>

record 'c market =
  session :: "'c session"
  steam_guard :: json
  session_id :: json
  was_login_executed :: bool

definition SteamMarket_init :: "'c session \<Rightarrow> 'c market" where
  "SteamMarket_init s =
     \<lparr>session = s, steam_guard = JNull, session_id = JNull, was_login_executed = False\<rparr>"

definition set_login_executed :: "'c market \<Rightarrow> json \<Rightarrow> string \<Rightarrow> 'c market" where
  "set_login_executed self steamguard sid =
     self\<lparr>steam_guard := steamguard, session_id := JStr sid, was_login_executed := True\<rparr>"

text \<open>
  Modelled from the spec: the decorator \<^verbatim>\<open>login_required\<close> is imported from
  \<^verbatim>\<open>steampy.utils\<close>, which is not among the sources.  The spec (4.1, 7 and 9) says that a
  session-requiring operation invoked before the Session Context is established fails
  with \<open>NotLoggedIn\<close> before any request is constructed, on a boolean flag of the context.
\<close>

definition login_required :: "'c market \<Rightarrow> ('c, 'a) io \<Rightarrow> ('c, 'a) io" where
  "login_required self body = (if \<not> was_login_executed self then io_raise NotLoggedIn else body)"

definition confirm_sell_listing :: "'c market \<Rightarrow> string \<Rightarrow> ('c, json) io" where
  "confirm_sell_listing self asset_id =
     io_bind (io_lift (py_subscript (steam_guard self) ''identity_secret'')) (\<lambda>secret.
     io_bind (io_lift (py_subscript (steam_guard self) ''steamid'')) (\<lambda>steamid.
     executor_confirm_sell_listing (session self) secret steamid asset_id))"

definition create_sell_order ::
  "deps \<Rightarrow> 'c market \<Rightarrow> string \<Rightarrow> game_options \<Rightarrow> string \<Rightarrow> ('c, json) io" where
  "create_sell_order D self assetid game money_to_receive = login_required self (
     let data = [(''assetid'', JStr assetid),
                 (''sessionid'', session_id self),
                 (''contextid'', JStr (context_id game)),
                 (''appid'', JStr (app_id game)),
                 (''amount'', JInt 1),
                 (''price'', JStr money_to_receive)]
     in
     io_bind (io_lift (py_subscript (steam_guard self) ''steamid'')) (\<lambda>steamid.
     let headers = [(''Referer'', COMMUNITY_URL D @ ''/profiles/'' @ py_str D steamid @ ''/inventory'')]
     in
     io_bind (session_post (session self) (COMMUNITY_URL D @ ''/market/sellitem/'') data headers)
       (\<lambda>resp.
     io_bind (response_json resp) (\<lambda>response.
     io_bind (io_lift (py_get response ''message'' (JStr []))) (\<lambda>message.
     io_bind (io_lift (py_in ''pending confirmation'' message)) (\<lambda>has_pending_confirmation.
     io_bind (io_lift (py_get response ''needs_mobile_confirmation'' JNull)) (\<lambda>needs.
     if truthy needs then confirm_sell_listing self assetid
     else
     io_bind (io_lift (py_get response ''success'' JNull)) (\<lambda>success.
     if \<not> truthy success \<and> has_pending_confirmation then confirm_sell_listing self assetid
     else io_return response))))))))"

definition cancel_sell_order :: "deps \<Rightarrow> 'c market \<Rightarrow> string \<Rightarrow> ('c, unit) io" where
  "cancel_sell_order D self sell_listing_id = login_required self (
     let data = [(''sessionid'', session_id self)];
         headers = [(''Referer'', COMMUNITY_URL D @ ''/market/'')];
         url = COMMUNITY_URL D @ ''/market/removelisting/'' @ sell_listing_id
     in
     io_bind (session_post (session self) url data headers) (\<lambda>response.
     if status_code response \<noteq> 200
     then io_raise (ApiException (''There was a problem removing the listing. HTTP code: ''
            @ str_int (status_code response)))
     else io_return ()))"

definition cancel_buy_order :: "deps \<Rightarrow> 'c market \<Rightarrow> json \<Rightarrow> ('c, json) io" where
  "cancel_buy_order D self buy_order_id = login_required self (
     let data = [(''sessionid'', session_id self), (''buy_orderid'', buy_order_id)];
         headers = [(''Referer'', COMMUNITY_URL D @ ''/market'')]
     in
     io_bind (session_post (session self) (COMMUNITY_URL D @ ''/market/cancelbuyorder/'') data headers)
       (\<lambda>resp.
     io_bind (response_json resp) (\<lambda>response.
     io_bind (io_lift (py_get response ''success'' JNull)) (\<lambda>success.
     if \<not> py_eq_int success 1
     then io_raise (ApiException (''There was a problem canceling the order. success: ''
            @ py_str D success))
     else io_return response))))"


definition create_buy_order ::
  "deps \<Rightarrow> 'c market \<Rightarrow> string \<Rightarrow> string \<Rightarrow> int \<Rightarrow> game_options \<Rightarrow> currency \<Rightarrow> ('c, json) io" where
  "create_buy_order D self market_name price_single_item quantity game cur = login_required self (
     io_bind (io_lift (price_total D price_single_item quantity)) (\<lambda>total.
     let data = [(''sessionid'', session_id self),
                 (''currency'', currency_value cur),
                 (''appid'', JStr (app_id game)),
                 (''market_hash_name'', JStr market_name),
                 (''price_total'', JStr total),
                 (''quantity'', JInt quantity)];
         headers = [(''Referer'', COMMUNITY_URL D @ ''/market/listings/'' @ app_id game @ ''/''
                       @ quote D market_name)]
     in
     io_bind (session_post (session self) (COMMUNITY_URL D @ ''/market/createbuyorder/'') data headers)
       (\<lambda>resp.
     io_bind (response_json resp) (\<lambda>response.
     io_bind (io_lift (py_get response ''success'' JNull)) (\<lambda>success.
     if \<not> py_eq_int success 1
     then io_raise (ApiException
            (''There was a problem creating the order. Are you using the right currency? success: ''
             @ py_str D success))
     else io_return response)))))"

fun send_all :: "'c session \<Rightarrow> json \<Rightarrow> json \<Rightarrow> 'c list \<Rightarrow> ('c, unit) io" where
  "send_all S secret steamid [] tr = (Inr (), tr)"
| "send_all S secret steamid (c # cs) tr =
     (case send_confirmation S secret steamid c tr of
        (Inl e, tr') \<Rightarrow> (Inl e, tr')
      | (Inr r, tr') \<Rightarrow> send_all S secret steamid cs tr')"

definition confirm_buy_listing :: "'c market \<Rightarrow> ('c, json) io" where
  "confirm_buy_listing self =
     io_bind (io_lift (py_subscript (steam_guard self) ''identity_secret'')) (\<lambda>secret.
     io_bind (io_lift (py_subscript (steam_guard self) ''steamid'')) (\<lambda>steamid.
     io_bind (get_confirmations (session self) secret steamid) (\<lambda>confirmations.
     io_bind (send_all (session self) secret steamid confirmations) (\<lambda>u.
     io_return (JObj [(''success'', JBool True),
                      (''message'', JStr ''All pending confirmations have been accepted.'')])))))"

text \<open>The two tests of \<^verbatim>\<open>buy_item\<close> on the first response (lines 200 and 203).\<close>

definition wallet_success :: "json \<Rightarrow> exn + bool" where
  "wallet_success response =
     sum_bind (py_get response ''wallet_info'' JNull) (\<lambda>w.
     if truthy w then sum_bind (py_get w ''success'' JNull) (\<lambda>s. Inr (py_eq_int s 1))
     else Inr False)"

definition needs_confirmation :: "json \<Rightarrow> exn + bool" where
  "needs_confirmation response =
     sum_bind (py_get response ''success'' JNull) (\<lambda>s.
     if py_eq_int s 22
     then sum_bind (py_get response ''confirmation'' (JObj [])) (\<lambda>c.
          sum_bind (py_get c ''confirmation_id'' JNull) (\<lambda>i. Inr (truthy i)))
     else Inr False)"

text \<open>The message of the final \<^verbatim>\<open>ApiException\<close> (lines 219 to 221).\<close>

definition failure_message :: "json \<Rightarrow> exn + json" where
  "failure_message response =
     sum_bind (py_get response ''message'' JNull) (\<lambda>message.
     sum_bind (py_get response ''wallet_info'' JNull) (\<lambda>w.
     if \<not> truthy message \<and> truthy w
     then sum_bind (py_subscript response ''wallet_info'') (\<lambda>w'. py_get w' ''message'' JNull)
     else Inr message))"

definition buy_item_handler :: "exn \<Rightarrow> ('c, json) io" where
  "buy_item_handler e =
     (case e of
        KeyError k \<Rightarrow> io_raise (ApiException
          ''Steam requested confirmation, but returned invalid data (confirmation_id).'')
      | TypeError m \<Rightarrow> io_raise (ApiException
          ''Steam requested confirmation, but returned invalid data (confirmation_id).'')
      | _ \<Rightarrow> io_raise (ApiException
          (''An error occurred during the second confirmation step: '' @ exn_str e)))"

text \<open>The form, the headers and the address of the purchase request (lines 182 to 197).\<close>

definition buy_data :: "string \<Rightarrow> currency \<Rightarrow> int \<Rightarrow> int \<Rightarrow> (string \<times> json) list" where
  "buy_data sid cur price fee =
     [(''sessionid'', JStr sid),
      (''currency'', currency_value cur),
      (''subtotal'', JInt (price - fee)),
      (''fee'', JInt fee),
      (''total'', JInt price),
      (''quantity'', JStr ''1''),
      (''billing_state'', JStr []),
      (''save_my_address'', JStr ''0''),
      (''confirmation'', JStr ''0'')]"

definition buy_headers :: "deps \<Rightarrow> game_options \<Rightarrow> string \<Rightarrow> (string \<times> string) list" where
  "buy_headers D game market_name =
     [(''Referer'', COMMUNITY_URL D @ ''/market/listings/'' @ app_id game @ ''/''
         @ quote D market_name)]"

definition buy_url :: "deps \<Rightarrow> string \<Rightarrow> string" where
  "buy_url D market_id = COMMUNITY_URL D @ ''/market/buylisting/'' @ market_id"

text \<open>The body of the \<^verbatim>\<open>try\<close> statement (lines 205 to 213).\<close>

definition buy_item_confirm ::
  "'c market \<Rightarrow> json \<Rightarrow> string \<Rightarrow> (string \<times> json) list \<Rightarrow> (string \<times> string) list \<Rightarrow> ('c, json) io" where
  "buy_item_confirm self response url data headers =
     io_bind (io_lift (sum_bind (py_subscript response ''confirmation'')
                         (\<lambda>c. py_subscript c ''confirmation_id''))) (\<lambda>confirmation_id.
     let data' = AList.update ''confirmation'' confirmation_id data in
     io_bind (confirm_buy_listing self) (\<lambda>r.
     io_bind (sleep 1) (\<lambda>u.
     io_bind (session_post (session self) url data' headers) (\<lambda>resp2.
     response_json resp2))))"

definition buy_item ::
  "deps \<Rightarrow> 'c market \<Rightarrow> string \<Rightarrow> string \<Rightarrow> int \<Rightarrow> int \<Rightarrow> game_options \<Rightarrow> currency \<Rightarrow> ('c, json) io" where
  "buy_item D self market_name market_id price fee game cur = login_required self (
     io_bind (session_cookies (session self) ''steamcommunity.com'') (\<lambda>cookies.
     io_bind (io_lift (case map_of cookies ''sessionid'' of
                         None \<Rightarrow> Inl (KeyError ''sessionid'') | Some v \<Rightarrow> Inr v)) (\<lambda>sid.
     let data = buy_data sid cur price fee;
         headers = buy_headers D game market_name;
         url = buy_url D market_id
     in
     io_bind (session_post (session self) url data headers) (\<lambda>resp.
     io_bind (response_json resp) (\<lambda>response.
     io_bind (io_lift (wallet_success response)) (\<lambda>ok.
     if ok then io_return response
     else
     io_bind (io_lift (needs_confirmation response)) (\<lambda>pending.
     if pending
     then io_catch (buy_item_confirm self response url data headers) buy_item_handler
     else
     io_bind (io_lift (failure_message response)) (\<lambda>message.
     io_raise (ApiException (''Failed to buy item. Steam message: '' @ py_str D message))))))))))"

subsection \<open>Listings\<close>

text \<open>\<^verbatim>\<open>listings['sell_listings'] = {**listings['sell_listings'], **listings_2['sell_listings']}\<close>\<close>

definition merge_sell_listings :: "json \<Rightarrow> json \<Rightarrow> exn + json" where
  "merge_sell_listings listings listings_2 =
     sum_bind (py_subscript listings ''sell_listings'') (\<lambda>a.
     sum_bind (as_mapping a) (\<lambda>akvs.
     sum_bind (py_subscript listings_2 ''sell_listings'') (\<lambda>b.
     sum_bind (as_mapping b) (\<lambda>bkvs.
     py_setitem listings ''sell_listings'' (JObj (dict_overlay akvs bkvs))))))"

text \<open>
  One request for further listings (lines 85 to 94, and again lines 99 to 109: the two
  branches differ in the address only), and the merge of its result into the collection
  (line 95, and again line 110).
\<close>

definition fetch_page_listings :: "deps \<Rightarrow> 'c session \<Rightarrow> string \<Rightarrow> ('c, json) io" where
  "fetch_page_listings D S url =
     io_bind (session_get S url) (\<lambda>response.
     if status_code response \<noteq> 200
     then io_raise (ApiException (''There was a problem getting the listings. HTTP code: ''
            @ str_int (status_code response)))
     else
     io_bind (response_json response) (\<lambda>jresp.
     io_bind (io_lift (py_get jresp ''hovers'' JNull)) (\<lambda>hovers.
     io_bind (io_lift (get_listing_id_to_assets_address_from_html D hovers)) (\<lambda>address.
     io_bind (io_lift (py_get jresp ''results_html'' JNull)) (\<lambda>results_html.
     io_bind (io_lift (get_market_sell_listings_from_api D results_html)) (\<lambda>listings_2.
     io_bind (io_lift (py_get jresp ''assets'' JNull)) (\<lambda>assets.
     io_lift (merge_items_with_descriptions_from_listing D listings_2 address assets))))))))"

definition fetch_listings_page :: "deps \<Rightarrow> 'c session \<Rightarrow> string \<Rightarrow> json \<Rightarrow> ('c, json) io" where
  "fetch_listings_page D S url listings =
     io_bind (fetch_page_listings D S url) (\<lambda>listings_2.
     io_lift (merge_sell_listings listings listings_2))"

definition bulk_url :: "deps \<Rightarrow> int \<Rightarrow> string" where
  "bulk_url D start =
     COMMUNITY_URL D @ ''/market/mylistings/render/?query=&start='' @ str_int start
       @ ''&count='' @ str_int (- 1)"

definition page_url :: "deps \<Rightarrow> int \<Rightarrow> string" where
  "page_url D start =
     COMMUNITY_URL D @ ''/market/mylistings/?query=&start='' @ str_int start
       @ ''&count='' @ str_int 100"

fun fetch_pages :: "deps \<Rightarrow> 'c session \<Rightarrow> int \<Rightarrow> int list \<Rightarrow> json \<Rightarrow> ('c, json) io" where
  "fetch_pages D S n_showing [] listings tr = (Inr listings, tr)"
| "fetch_pages D S n_showing (i # rest) listings tr =
     (case fetch_listings_page D S (page_url D (n_showing + i)) listings tr of
        (Inl e, tr') \<Rightarrow> (Inl e, tr')
      | (Inr listings', tr') \<Rightarrow> fetch_pages D S n_showing rest listings' tr')"

text \<open>The fetch plan (lines 83 to 110).\<close>

definition paginate :: "deps \<Rightarrow> 'c session \<Rightarrow> int \<Rightarrow> int \<Rightarrow> json \<Rightarrow> ('c, json) io" where
  "paginate D S n_showing n_total listings =
     (if n_showing < n_total \<and> n_total < 1000
      then fetch_listings_page D S (bulk_url D n_showing) listings
      else fetch_pages D S n_showing (py_range0 n_total 100) listings)"

definition span_marker :: "string \<Rightarrow> string" where
  "span_marker name = ''<span id='' @ [CHR 0x22] @ name @ [CHR 0x22] @ ''>''"

definition get_my_market_listings :: "deps \<Rightarrow> 'c market \<Rightarrow> ('c, json) io" where
  "get_my_market_listings D self = login_required self (
     io_bind (session_get (session self) (COMMUNITY_URL D @ ''/market'')) (\<lambda>response.
     if status_code response \<noteq> 200
     then io_raise (ApiException (''There was a problem getting the listings. HTTP code: ''
            @ str_int (status_code response)))
     else
     let page = resp_text response in
     io_bind (io_lift (sum_bind (text_between D page ''var g_rgAssets = '' ('';'' @ [CHR 0x0A]))
                         (json_loads D))) (\<lambda>assets_descriptions.
     io_bind (io_lift (get_listing_id_to_assets_address_from_html D (JStr page))) (\<lambda>address.
     io_bind (io_lift (get_market_listings_from_html D page)) (\<lambda>listings0.
     io_bind (io_lift (merge_items_with_descriptions_from_listing D listings0 address
                         assets_descriptions)) (\<lambda>listings.
     if sublist (span_marker ''tabContentsMyActiveMarketListings_end'') page
     then
       io_bind (io_lift (sum_bind (text_between D page
                  (span_marker ''tabContentsMyActiveMarketListings_end'') ''</span>'')
                  (py_int D))) (\<lambda>n_showing.
       io_bind (io_lift (sum_bind (text_between D page
                  (span_marker ''tabContentsMyActiveMarketListings_total'') ''</span>'')
                  (\<lambda>t. py_int D (filter (\<lambda>c. c \<noteq> CHR '','') t)))) (\<lambda>n_total.
       paginate D (session self) n_showing n_total listings))
     else io_return listings))))))"


section \<open>The fetch plan as the specification words it\<close>

text \<open>
  The specification has the sequential requests start at offset \<open>n_showing\<close> and advance by
  100 until the offset reaches \<open>n_total\<close>: these are the offsets of that wording.
\<close>

definition spec_offsets :: "int \<Rightarrow> int \<Rightarrow> int list" where
  "spec_offsets n_showing n_total =
     map (\<lambda>k. n_showing + 100 * int k) [0 ..< nat ((n_total - n_showing + 99) div 100)]"

text \<open>
  A collection that has a dictionary of sell listings, and the overlay of the pages of a
  list, one after the other, onto a collection.
\<close>

fun has_sell_listings :: "json \<Rightarrow> bool" where
  "has_sell_listings (JObj kvs) =
     (case map_of kvs ''sell_listings'' of Some (JObj a) \<Rightarrow> True | _ \<Rightarrow> False)"
| "has_sell_listings v = False"

fun overlay_pages :: "json \<Rightarrow> json list \<Rightarrow> exn + json" where
  "overlay_pages listings [] = Inr listings"
| "overlay_pages listings (p # ps) =
     sum_bind (merge_sell_listings listings p) (\<lambda>listings'. overlay_pages listings' ps)"

section \<open>The error taxonomy of the specification\<close>

text \<open>
  The specification names five kinds of failure.  The module raises \<open>ApiException\<close>
  (the specification's \<open>ApiError\<close>) and \<open>TooManyRequests\<close> (its \<open>RateLimited\<close>), and the login
  guard raises \<open>NotLoggedIn\<close>; no exception class of the module corresponds to
  \<open>OrderRejected\<close> or to \<open>ConfirmationError\<close>.  A built-in exception that escapes is none of
  the five.
\<close>

datatype spec_error = SNotLoggedIn | SRateLimited | SApiError | SOrderRejected | SConfirmationError

fun spec_error_of :: "exn \<Rightarrow> spec_error option" where
  "spec_error_of (ApiException m) = Some SApiError"
| "spec_error_of (TooManyRequests m) = Some SRateLimited"
| "spec_error_of NotLoggedIn = Some SNotLoggedIn"
| "spec_error_of e = None"

section \<open>Concrete environments for the examples\<close>

definition deps0 :: deps where
  "deps0 = \<lparr>COMMUNITY_URL = ''https://steamcommunity.com'',
            quote = (\<lambda>s. s),
            py_repr = (\<lambda>v. ''?''),
            py_int = (\<lambda>s. Inr 0),
            json_loads = (\<lambda>s. Inr (JObj [])),
            text_between = (\<lambda>t b e. Inr []),
            decimal_product_other = (\<lambda>p q. Inl (OtherException ''decimal.InvalidOperation'')),
            get_listing_id_to_assets_address_from_html = (\<lambda>v. Inr (JObj [])),
            get_market_listings_from_html =
              (\<lambda>s. Inr (JObj [(''buy_orders'', JObj []), (''sell_listings'', JObj [])])),
            get_market_sell_listings_from_api = (\<lambda>v. Inr (JObj [(''sell_listings'', v)])),
            merge_items_with_descriptions_from_listing = (\<lambda>l a d. Inr l)\<rparr>"

definition game0 :: game_options where
  "game0 = \<lparr>app_id = ''730'', context_id = ''2''\<rparr>"

definition usd :: currency where
  "usd = \<lparr>currency_value = JInt 1\<rparr>"

definition guard0 :: json where
  "guard0 = JObj [(''steamid'', JStr ''7656''), (''identity_secret'', JStr ''c2VjcmV0'')]"

definition json_response :: "json \<Rightarrow> response" where
  "json_response j = \<lparr>status_code = 200, resp_text = [], json_body = Inr j\<rparr>"

fun is_post :: "'c event \<Rightarrow> bool" where
  "is_post (HttpPost u d h) = True"
| "is_post e = False"

fun is_get :: "'c event \<Rightarrow> bool" where
  "is_get (HttpGet u) = True"
| "is_get e = False"

text \<open>
  A session that answers the \<open>n\<close>-th POST with the \<open>n\<close>-th element of \<open>posts\<close> and the \<open>n\<close>-th GET
  with the \<open>n\<close>-th element of \<open>gets\<close> (a connection error when the list is used up), always
  reports the pending confirmations \<open>cs\<close>, and accepts whatever it is asked to confirm.
\<close>

definition reply_at :: "response list \<Rightarrow> nat \<Rightarrow> exn + response" where
  "reply_at rs n = (if n < length rs then Inr (rs ! n) else Inl (OtherException ''ConnectionError''))"

definition scripted :: "response list \<Rightarrow> response list \<Rightarrow> 'c list \<Rightarrow> 'c session" where
  "scripted gets posts cs =
     \<lparr>http_get = (\<lambda>tr url. reply_at gets (length (filter is_get tr))),
      http_post = (\<lambda>tr url data headers. reply_at posts (length (filter is_post tr))),
      cookies_get_dict = (\<lambda>tr domain. [(''sessionid'', ''5e55'')]),
      ce_get_confirmations = (\<lambda>tr secret steamid. Inr cs),
      ce_send_confirmation = (\<lambda>tr secret steamid c. Inr (JObj [(''success'', JBool True)])),
      ce_confirm_sell_listing =
        (\<lambda>tr secret steamid asset_id. Inr (JObj [(''success'', JBool True)]))\<rparr>"

text \<open>A session that answers every GET with the same response.\<close>

definition always :: "response \<Rightarrow> 'c session" where
  "always r = (scripted [] [] [])\<lparr>http_get := (\<lambda>tr url. Inr r)\<rparr>"

definition page0 :: response where
  "page0 = json_response (JObj [(''results_html'', JObj [(''L1'', JInt 1)])])"

definition listings0 :: json where
  "listings0 = JObj [(''buy_orders'', JObj []), (''sell_listings'', JObj [(''L0'', JInt 0)])]"

text \<open>The same, with a confirmation service whose fetch of the pending confirmations fails.\<close>

definition failing_service :: "response list \<Rightarrow> exn \<Rightarrow> 'c session" where
  "failing_service posts e =
     (scripted [] posts [])\<lparr>ce_get_confirmations := (\<lambda>tr secret steamid. Inl e)\<rparr>"

text \<open>The same, with a confirmation service that fails to accept a confirmation.\<close>

definition failing_accept :: "response list \<Rightarrow> 'c list \<Rightarrow> exn \<Rightarrow> 'c session" where
  "failing_accept posts cs e =
     (scripted [] posts cs)\<lparr>ce_send_confirmation := (\<lambda>tr secret steamid c. Inl e)\<rparr>"

text \<open>A response whose body is not JSON.\<close>

definition undecodable :: response where
  "undecodable =
     \<lparr>status_code = 200, resp_text = ''<html>'',
      json_body = Inl (OtherException ''Expecting value: line 1 column 1 (char 0)'')\<rparr>"

definition logged_in :: "'c session \<Rightarrow> 'c market" where
  "logged_in S = set_login_executed (SteamMarket_init S) guard0 ''5e55''"

text \<open>A market object whose guard record lacks the signing secret.\<close>

definition logged_in_without_secret :: "'c session \<Rightarrow> 'c market" where
  "logged_in_without_secret S =
     set_login_executed (SteamMarket_init S) (JObj [(''steamid'', JStr ''7656'')]) ''5e55''"

section \<open>Basic facts\<close>

lemma str_int_examples: "str_int 0 = ''0'' \<and> str_int 22 = ''22'' \<and> str_int (- 7) = ''-7''"
  by (simp add: str_int_def str_nat.simps)

lemma io_bind_lift_Inr [simp]: "io_bind (io_lift (Inr x)) f = f x"
  by (rule ext) (simp add: io_bind_def io_lift_def)

lemma io_bind_lift_Inl [simp]: "io_bind (io_lift (Inl e)) f = io_raise e"
  by (rule ext) (simp add: io_bind_def io_lift_def io_raise_def)

lemma io_bind_return [simp]: "io_bind (io_return x) f = f x"
  by (rule ext) (simp add: io_bind_def io_return_def)

lemma io_bind_raise [simp]: "io_bind (io_raise e) f = io_raise e"
  by (rule ext) (simp add: io_bind_def io_raise_def)

lemma io_raise_apply [simp]: "io_raise e tr = (Inl e, tr)"
  by (simp add: io_raise_def)

lemma io_return_apply [simp]: "io_return x tr = (Inr x, tr)"
  by (simp add: io_return_def)

lemma io_lift_apply [simp]: "io_lift r tr = (r, tr)"
  by (simp add: io_lift_def)

lemma io_bind_post:
  "io_bind (session_post S url data headers) f tr =
     (case http_post S tr url data headers of
        Inl e \<Rightarrow> (Inl e, tr @ [HttpPost url data headers])
      | Inr r \<Rightarrow> f r (tr @ [HttpPost url data headers]))"
  by (simp add: io_bind_def session_post_def split: sum.splits)

lemma io_bind_get:
  "io_bind (session_get S url) f tr =
     (case http_get S tr url of
        Inl e \<Rightarrow> (Inl e, tr @ [HttpGet url])
      | Inr r \<Rightarrow> f r (tr @ [HttpGet url]))"
  by (simp add: io_bind_def session_get_def split: sum.splits)

lemma io_bind_response_json:
  "io_bind (response_json r) f = (case json_body r of Inl e \<Rightarrow> io_raise e | Inr j \<Rightarrow> f j)"
  by (simp add: response_json_def split: sum.splits)

lemma sum_bind_simps [simp]:
  "sum_bind (Inr x) f = f x" "sum_bind (Inl e) f = Inl e"
  by (simp_all add: sum_bind_def)

lemmas env_defs =
  deps0_def game0_def usd_def guard0_def json_response_def reply_at_def scripted_def
  failing_service_def always_def page0_def listings0_def
  logged_in_def set_login_executed_def SteamMarket_init_def
  failing_accept_def undecodable_def logged_in_without_secret_def

lemmas decimal_defs =
  price_total_def parse_plain_def is_digit_def int_of_digits_def digit_val_def dec_of_int_def
  dec_mul_def dec_fix_def num_digits_def round_up_def dec_str_def str_int_def
  prec_def Emax_def Emin_def Etiny_def Etop_def

lemmas session_defs =
  guard0_def json_response_def reply_at_def scripted_def failing_service_def failing_accept_def
  undecodable_def logged_in_def logged_in_without_secret_def set_login_executed_def
  SteamMarket_init_def

section \<open>The login guard\<close>

text \<open>
  Claim C8.  Each of the five mutating operations (\<open>create_sell_order\<close>, \<open>create_buy_order\<close>,
  \<open>buy_item\<close>, \<open>cancel_sell_order\<close>, \<open>cancel_buy_order\<close>), invoked on a market object whose
  login has not been executed, fails with \<open>NotLoggedIn\<close> and leaves the trace as it was: no
  request is sent, no confirmation is fetched, nothing is attempted a second time.
\<close>

theorem login_guard_before_io:
  assumes "\<not> was_login_executed self"
  shows "create_sell_order D self assetid game money tr = (Inl NotLoggedIn, tr)
       \<and> create_buy_order D self name p q game cur tr = (Inl NotLoggedIn, tr)
       \<and> buy_item D self name mid price fee game cur tr = (Inl NotLoggedIn, tr)
       \<and> cancel_sell_order D self lid tr = (Inl NotLoggedIn, tr)
       \<and> cancel_buy_order D self oid tr = (Inl NotLoggedIn, tr)"
  using assms
  by (simp add: create_sell_order_def create_buy_order_def buy_item_def cancel_sell_order_def
      cancel_buy_order_def login_required_def)

theorem login_guard_before_io_witness:
  "\<not> was_login_executed (SteamMarket_init (scripted [] [] ([] :: nat list)))
   \<and> create_sell_order deps0 (SteamMarket_init (scripted [] [] ([] :: nat list))) ''a1'' game0 ''100'' []
       = (Inl NotLoggedIn, [])
   \<and> create_buy_order deps0 (SteamMarket_init (scripted [] [] ([] :: nat list))) ''AK'' ''0.33'' 3 game0 usd []
       = (Inl NotLoggedIn, [])
   \<and> buy_item deps0 (SteamMarket_init (scripted [] [] ([] :: nat list))) ''AK'' ''99'' 100 13 game0 usd []
       = (Inl NotLoggedIn, [])
   \<and> cancel_sell_order deps0 (SteamMarket_init (scripted [] [] ([] :: nat list))) ''77'' []
       = (Inl NotLoggedIn, [])
   \<and> cancel_buy_order deps0 (SteamMarket_init (scripted [] [] ([] :: nat list))) (JStr ''88'') []
       = (Inl NotLoggedIn, [])"
proof -
  have guard: "\<not> was_login_executed (SteamMarket_init (scripted [] [] ([] :: nat list)))"
    by (simp add: SteamMarket_init_def)
  from login_guard_before_io [OF guard, of deps0 "''a1''" game0 "''100''" "[]" "''AK''" "''0.33''" 3
      usd "''99''" 100 13 "''77''" "JStr ''88''"] guard
  show ?thesis by simp
qed

section \<open>Buy orders: creation and cancellation\<close>

text \<open>
  Claim C3, as stated, has \<open>create_buy_order\<close> and \<open>cancel_buy_order\<close> raise an error
  \<open>OrderRejected\<close> that is distinct from \<open>ApiError\<close> when the success indicator is not 1.
  The module has no such class: with the indicator 0 the call raises \<open>ApiException\<close>, the
  class it raises for every other failure of the marketplace interface.
\<close>

theorem order_rejected_counterexample:
  "fst (create_buy_order deps0
      (logged_in (scripted [] [json_response (JObj [(''success'', JInt 0)])] ([] :: nat list)))
      ''AK'' ''0.33'' 3 game0 usd [])
     = Inl (ApiException
         ''There was a problem creating the order. Are you using the right currency? success: 0'')
   \<and> spec_error_of (ApiException
         ''There was a problem creating the order. Are you using the right currency? success: 0'')
     = Some SApiError
   \<and> spec_error_of (ApiException
         ''There was a problem creating the order. Are you using the right currency? success: 0'')
     \<noteq> Some SOrderRejected"
  by (simp add: create_buy_order_def login_required_def io_bind_post io_bind_response_json
      env_defs decimal_defs str_nat.simps Let_def)

text \<open>
  Claim C3, amended.  When the request is answered by a JSON object, \<open>create_buy_order\<close>
  returns that object exactly when its \<open>success\<close> entry equals 1 (as Python compares, so
  \<open>True\<close> counts), and otherwise raises \<open>ApiException\<close> with a message that ends in the text
  of the raw entry (\<open>None\<close> when there is none); \<open>cancel_buy_order\<close> does the same with its
  own message.
\<close>

theorem buy_order_rejection:
  assumes "was_login_executed self"
    and "price_total D p q = Inr ptotal"
    and "\<And>url data headers. http_post (session self) tr url data headers = Inr resp"
    and "json_body resp = Inr (JObj kvs)"
    and "py_get (JObj kvs) ''success'' JNull = Inr s"
  shows "fst (create_buy_order D self name p q game cur tr) =
           (if py_eq_int s 1 then Inr (JObj kvs)
            else Inl (ApiException
              (''There was a problem creating the order. Are you using the right currency? success: ''
               @ py_str D s)))
       \<and> fst (cancel_buy_order D self oid tr) =
           (if py_eq_int s 1 then Inr (JObj kvs)
            else Inl (ApiException (''There was a problem canceling the order. success: '' @ py_str D s)))"
  using assms
  by (simp add: create_buy_order_def cancel_buy_order_def login_required_def io_bind_post
      io_bind_response_json Let_def del: py_get.simps)

theorem buy_order_rejection_witness:
  "was_login_executed (logged_in (scripted [] [json_response (JObj [(''success'', JBool True)])] ([] :: nat list)))
   \<and> price_total deps0 ''0.33'' 3 = Inr ''0.99''
   \<and> (\<forall>url data headers.
         http_post (session (logged_in (scripted [] [json_response (JObj [(''success'', JBool True)])]
           ([] :: nat list)))) [] url data headers
         = Inr (json_response (JObj [(''success'', JBool True)])))
   \<and> fst (create_buy_order deps0
         (logged_in (scripted [] [json_response (JObj [(''success'', JBool True)])] ([] :: nat list)))
         ''AK'' ''0.33'' 3 game0 usd []) = Inr (JObj [(''success'', JBool True)])
   \<and> fst (cancel_buy_order deps0
         (logged_in (scripted [] [json_response (JObj [(''success'', JBool True)])] ([] :: nat list)))
         (JStr ''88'') []) = Inr (JObj [(''success'', JBool True)])"
proof -
  let ?M = "logged_in (scripted [] [json_response (JObj [(''success'', JBool True)])] ([] :: nat list))"
  have h1: "was_login_executed ?M" by (simp add: env_defs)
  have h2: "price_total deps0 ''0.33'' 3 = Inr ''0.99''"
    by (simp add: decimal_defs str_nat.simps Let_def)
  have h3: "\<And>url data headers. http_post (session ?M) [] url data headers
              = Inr (json_response (JObj [(''success'', JBool True)]))"
    by (simp add: env_defs)
  have h4: "json_body (json_response (JObj [(''success'', JBool True)]))
              = Inr (JObj [(''success'', JBool True)])"
    by (simp add: env_defs)
  have h5: "py_get (JObj [(''success'', JBool True)]) ''success'' JNull = Inr (JBool True)"
    by simp
  from buy_order_rejection [OF h1 h2 h3 h4 h5, of "''AK''" game0 usd "JStr ''88''"] h1 h2 h3
  show ?thesis by simp
qed

section \<open>Sell orders and the targeted confirmation\<close>

text \<open>
  Claim C6, as stated, has every submission end in the targeted confirmation or in the
  submit response.  In \<open>create_sell_order\<close> the search for the words \<open>pending confirmation\<close>
  in the message comes before the test of \<open>needs_mobile_confirmation\<close>, and it needs a
  message that can be searched: when the \<open>message\<close> entry of the answer is null, the call
  raises \<open>TypeError\<close> after the one request and the sell listing is not confirmed, although
  \<open>needs_mobile_confirmation\<close> is true.
\<close>

theorem null_message_counterexample:
  "truthy (JBool True)
   \<and> (\<exists>req. is_post req \<and>
        create_sell_order deps0 (logged_in (scripted []
          [json_response (JObj [(''success'', JBool False), (''needs_mobile_confirmation'', JBool True),
             (''message'', JNull)])] ([] :: nat list)))
          ''a1'' game0 ''100'' []
        = (Inl (TypeError (''argument of type '' @ [CHR 0x27] @ ''NoneType'' @ [CHR 0x27]
                   @ '' is not iterable'')), [req]))"
  by (simp add: create_sell_order_def login_required_def io_bind_post io_bind_response_json
      env_defs Let_def)

text \<open>
  Claim C6, amended.  \<open>create_sell_order\<close> sends one request.  When the answer is a JSON
  object, the test \<^verbatim>\<open>'pending confirmation' in message\<close> is made first, on the \<open>message\<close>
  entry or on the empty string when there is none: it is the substring test when the
  message is a string (membership for a list or a dictionary), and it raises \<open>TypeError\<close>
  when the message is null, a boolean or a number; the call then ends with that error,
  the trace holds the request only, and nothing is confirmed.  Otherwise the client asks
  the confirmation service to confirm the sell listing of the submitted asset, and returns
  what the service returns, exactly when \<open>needs_mobile_confirmation\<close> is truthy or
  \<open>success\<close> is falsy and the test found the words; the trace then holds the request and
  the one targeted confirmation, and no fetch or acceptance of other confirmations (with
  a guard record that lacks the signing secret the call raises \<open>KeyError\<close> at this point,
  before the service is asked).  In every other case the answer is returned unchanged and
  the trace holds the request only.
\<close>

theorem sell_order_confirmation:
  assumes "was_login_executed self"
    and "steam_guard self = JObj g"
    and "map_of g ''steamid'' = Some steamid"
    and "\<And>url data headers. http_post (session self) tr url data headers = Inr resp"
    and "json_body resp = Inr (JObj kvs)"
    and "message = (case map_of kvs ''message'' of None \<Rightarrow> JStr [] | Some v \<Rightarrow> v)"
    and "needs = (case map_of kvs ''needs_mobile_confirmation'' of None \<Rightarrow> JNull | Some v \<Rightarrow> v)"
    and "success = (case map_of kvs ''success'' of None \<Rightarrow> JNull | Some v \<Rightarrow> v)"
  shows "\<exists>req. is_post req \<and> create_sell_order D self assetid game money tr =
           (case py_in ''pending confirmation'' message of
              Inl e \<Rightarrow> (Inl e, tr @ [req])
            | Inr pending \<Rightarrow>
                if truthy needs \<or> (\<not> truthy success \<and> pending)
                then (case map_of g ''identity_secret'' of
                        None \<Rightarrow> (Inl (KeyError ''identity_secret''), tr @ [req])
                      | Some secret \<Rightarrow>
                          (ce_confirm_sell_listing (session self) (tr @ [req]) secret steamid assetid,
                           tr @ [req, ConfirmSellListing secret steamid assetid]))
                else (Inr (JObj kvs), tr @ [req]))
         \<and> (\<forall>m. message = JStr m \<longrightarrow>
               py_in ''pending confirmation'' message = Inr (sublist ''pending confirmation'' m))
         \<and> (message = JNull \<or> (\<exists>b. message = JBool b) \<or> (\<exists>i. message = JInt i) \<longrightarrow>
               (\<exists>t. py_in ''pending confirmation'' message = Inl (TypeError t)))"
proof -
  let ?req = "HttpPost (COMMUNITY_URL D @ ''/market/sellitem/'')
      [(''assetid'', JStr assetid), (''sessionid'', session_id self),
       (''contextid'', JStr (context_id game)), (''appid'', JStr (app_id game)),
       (''amount'', JInt 1), (''price'', JStr money)]
      [(''Referer'', COMMUNITY_URL D @ ''/profiles/'' @ py_str D steamid @ ''/inventory'')]"
  have run: "create_sell_order D self assetid game money tr =
           (case py_in ''pending confirmation'' message of
              Inl e \<Rightarrow> (Inl e, tr @ [?req])
            | Inr pending \<Rightarrow>
                if truthy needs \<or> (\<not> truthy success \<and> pending)
                then (case map_of g ''identity_secret'' of
                        None \<Rightarrow> (Inl (KeyError ''identity_secret''), tr @ [?req])
                      | Some secret \<Rightarrow>
                          (ce_confirm_sell_listing (session self) (tr @ [?req]) secret steamid assetid,
                           tr @ [?req, ConfirmSellListing secret steamid assetid]))
                else (Inr (JObj kvs), tr @ [?req]))"
    using assms
    by (simp add: create_sell_order_def confirm_sell_listing_def login_required_def io_bind_post
        io_bind_response_json executor_confirm_sell_listing_def Let_def
        split: sum.splits option.splits)
  have str: "\<forall>m. message = JStr m \<longrightarrow>
               py_in ''pending confirmation'' message = Inr (sublist ''pending confirmation'' m)"
    by simp
  have bad: "message = JNull \<or> (\<exists>b. message = JBool b) \<or> (\<exists>i. message = JInt i) \<longrightarrow>
               (\<exists>t. py_in ''pending confirmation'' message = Inl (TypeError t))"
    by auto
  have "is_post ?req" by simp
  with run str bad show ?thesis by blast
qed

theorem sell_order_confirmation_witness:
  "was_login_executed (logged_in (scripted []
      [json_response (JObj [(''success'', JBool False),
         (''message'', JStr ''There is a pending confirmation for this item'')])] ([] :: nat list)))
   \<and> (\<exists>req. is_post req \<and>
        create_sell_order deps0 (logged_in (scripted []
          [json_response (JObj [(''success'', JBool False),
             (''message'', JStr ''There is a pending confirmation for this item'')])] ([] :: nat list)))
          ''a1'' game0 ''100'' []
        = (Inr (JObj [(''success'', JBool True)]),
           [req, ConfirmSellListing (JStr ''c2VjcmV0'') (JStr ''7656'') ''a1'']))
   \<and> (\<exists>req. is_post req \<and>
        create_sell_order deps0 (logged_in (scripted []
          [json_response (JObj [(''success'', JBool True)])] ([] :: nat list)))
          ''a1'' game0 ''100'' []
        = (Inr (JObj [(''success'', JBool True)]), [req]))"
proof -
  let ?R = "JObj [(''success'', JBool False),
                  (''message'', JStr ''There is a pending confirmation for this item'')]"
  let ?kvs = "[(''success'', JBool False),
                  (''message'', JStr ''There is a pending confirmation for this item'')]"
  let ?M = "logged_in (scripted [] [json_response ?R] ([] :: nat list))"
  let ?g = "[(''steamid'', JStr ''7656''), (''identity_secret'', JStr ''c2VjcmV0'')]"
  have h1: "was_login_executed ?M" by (simp add: env_defs)
  have h2: "steam_guard ?M = JObj ?g" by (simp add: env_defs)
  have h3: "map_of ?g ''steamid'' = Some (JStr ''7656'')" by simp
  have h5: "\<And>url data headers. http_post (session ?M) [] url data headers = Inr (json_response ?R)"
    by (simp add: env_defs)
  have h6: "json_body (json_response ?R) = Inr ?R" by (simp add: env_defs)
  have h7: "JStr ''There is a pending confirmation for this item''
              = (case map_of ?kvs ''message'' of None \<Rightarrow> JStr [] | Some v \<Rightarrow> v)" by simp
  have h8: "JNull = (case map_of ?kvs ''needs_mobile_confirmation'' of None \<Rightarrow> JNull | Some v \<Rightarrow> v)"
    by simp
  have h9: "JBool False = (case map_of ?kvs ''success'' of None \<Rightarrow> JNull | Some v \<Rightarrow> v)" by simp
  have sub: "sublist ''pending confirmation'' ''There is a pending confirmation for this item''"
    by (simp add: sublist_Cons_right)
  have ce: "\<And>req. ce_confirm_sell_listing (session ?M) [req] (JStr ''c2VjcmV0'') (JStr ''7656'') ''a1''
              = Inr (JObj [(''success'', JBool True)])"
    by (simp add: env_defs)
  from sell_order_confirmation [OF h1 h2 h3 h5 h6 h7 h8 h9, of deps0 "''a1''" game0 "''100''"] sub ce
  have run1: "\<exists>req. is_post req \<and> create_sell_order deps0 ?M ''a1'' game0 ''100'' []
        = (Inr (JObj [(''success'', JBool True)]),
           [req, ConfirmSellListing (JStr ''c2VjcmV0'') (JStr ''7656'') ''a1''])"
    by simp
  let ?R' = "JObj [(''success'', JBool True)]"
  let ?kvs' = "[(''success'', JBool True)]"
  let ?M' = "logged_in (scripted [] [json_response ?R'] ([] :: nat list))"
  have k1: "was_login_executed ?M'" by (simp add: env_defs)
  have k2: "steam_guard ?M' = JObj ?g" by (simp add: env_defs)
  have k5: "\<And>url data headers. http_post (session ?M') [] url data headers = Inr (json_response ?R')"
    by (simp add: env_defs)
  have k6: "json_body (json_response ?R') = Inr ?R'" by (simp add: env_defs)
  have k7: "JStr [] = (case map_of ?kvs' ''message'' of None \<Rightarrow> JStr [] | Some v \<Rightarrow> v)" by simp
  have k8: "JNull = (case map_of ?kvs' ''needs_mobile_confirmation'' of None \<Rightarrow> JNull | Some v \<Rightarrow> v)"
    by simp
  have k9: "JBool True = (case map_of ?kvs' ''success'' of None \<Rightarrow> JNull | Some v \<Rightarrow> v)" by simp
  from sell_order_confirmation [OF k1 k2 h3 k5 k6 k7 k8 k9, of deps0 "''a1''" game0 "''100''"]
  have run2: "\<exists>req. is_post req \<and> create_sell_order deps0 ?M' ''a1'' game0 ''100'' []
        = (Inr ?R', [req])"
    by simp
  from h1 run1 run2 show ?thesis by simp
qed

section \<open>Merging listing collections\<close>

lemma fold_update_distinct:
  "distinct (map fst b) \<Longrightarrow>
   map_of (fold (\<lambda>(k, v). AList.update k v) b a) = map_of a ++ map_of b"
proof (induction b arbitrary: a)
  case Nil
  then show ?case by simp
next
  case (Cons x b)
  obtain k v where x: "x = (k, v)" by (cases x)
  from Cons.prems x have nk: "k \<notin> dom (map_of b)" and d: "distinct (map fst b)"
    by (auto simp: dom_map_of_conv_image_fst)
  have "map_of (fold (\<lambda>(k, v). AList.update k v) (x # b) a)
          = map_of (AList.update k v a) ++ map_of b"
    using Cons.IH [OF d, of "AList.update k v a"] x by simp
  also have "\<dots> = (map_of a)(k \<mapsto> v) ++ map_of b"
    by (simp add: update_conv')
  also have "\<dots> = (map_of a ++ map_of b)(k \<mapsto> v)"
    using nk by (simp add: map_add_upd_left)
  also have "\<dots> = map_of a ++ map_of (x # b)"
    using x by simp
  finally show ?case .
qed

lemma map_of_dict_overlay: "map_of (dict_overlay a b) = map_of a ++ map_of b"
  unfolding dict_overlay_def
  by (simp add: fold_update_distinct distinct_clearjunk map_of_clearjunk)

text \<open>
  Claim C7, as stated, has the buy listings of the second collection merged into the
  result like the sell listings.  The merge of the module touches the entry
  \<open>sell_listings\<close> only: a buy order that the second collection holds is not in the result.
\<close>

theorem buy_listings_not_merged_counterexample:
  "merge_sell_listings
      (JObj [(''buy_orders'', JObj []), (''sell_listings'', JObj [(''a'', JInt 1)])])
      (JObj [(''buy_orders'', JObj [(''b1'', JInt 9)]), (''sell_listings'', JObj [(''a'', JInt 2)])])
    = Inr (JObj [(''buy_orders'', JObj []), (''sell_listings'', JObj [(''a'', JInt 2)])])"
  by (simp add: merge_sell_listings_def dict_overlay_def)

text \<open>
  Claim C7, amended.  Merging two listing collections overlays the sell listings of the
  second onto those of the first by key: for a shared key the value of the second wins,
  and a key of either side alone is kept.  Every other entry of the result, the buy
  listings among them, is the entry of the first collection, unchanged.
\<close>

theorem merge_overlays_sell_listings:
  assumes "map_of L ''sell_listings'' = Some (JObj a)"
    and "map_of L2 ''sell_listings'' = Some (JObj b)"
  shows "\<exists>r m. merge_sell_listings (JObj L) (JObj L2) = Inr (JObj r)
           \<and> map_of r ''sell_listings'' = Some (JObj m)
           \<and> (\<forall>k. map_of m k = (case map_of b k of Some v \<Rightarrow> Some v | None \<Rightarrow> map_of a k))
           \<and> (\<forall>k. k \<noteq> ''sell_listings'' \<longrightarrow> map_of r k = map_of L k)"
  using assms
  by (simp add: merge_sell_listings_def map_of_dict_overlay update_conv' map_add_def)

theorem merge_overlays_sell_listings_witness:
  "map_of [(''buy_orders'', JObj [(''b0'', JInt 7)]), (''sell_listings'', JObj [(''a'', JInt 1), (''b'', JInt 2)])]
      ''sell_listings'' = Some (JObj [(''a'', JInt 1), (''b'', JInt 2)])
   \<and> (\<exists>r m. merge_sell_listings
          (JObj [(''buy_orders'', JObj [(''b0'', JInt 7)]),
                 (''sell_listings'', JObj [(''a'', JInt 1), (''b'', JInt 2)])])
          (JObj [(''sell_listings'', JObj [(''c'', JInt 5), (''a'', JInt 3)])]) = Inr (JObj r)
        \<and> map_of r ''sell_listings'' = Some (JObj m)
        \<and> map_of m ''a'' = Some (JInt 3) \<and> map_of m ''b'' = Some (JInt 2)
        \<and> map_of m ''c'' = Some (JInt 5)
        \<and> map_of r ''buy_orders'' = Some (JObj [(''b0'', JInt 7)]))"
proof -
  let ?L = "[(''buy_orders'', JObj [(''b0'', JInt 7)]),
             (''sell_listings'', JObj [(''a'', JInt 1), (''b'', JInt 2)])]"
  let ?L2 = "[(''sell_listings'', JObj [(''c'', JInt 5), (''a'', JInt 3)])]"
  have h1: "map_of ?L ''sell_listings'' = Some (JObj [(''a'', JInt 1), (''b'', JInt 2)])" by simp
  have h2: "map_of ?L2 ''sell_listings'' = Some (JObj [(''c'', JInt 5), (''a'', JInt 3)])" by simp
  from merge_overlays_sell_listings [OF h1 h2]
  obtain r m where r: "merge_sell_listings (JObj ?L) (JObj ?L2) = Inr (JObj r)"
    and m: "map_of r ''sell_listings'' = Some (JObj m)"
    and ov: "\<forall>k. map_of m k = (case map_of [(''c'', JInt 5), (''a'', JInt 3)] k of
                 Some v \<Rightarrow> Some v | None \<Rightarrow> map_of [(''a'', JInt 1), (''b'', JInt 2)] k)"
    and fr: "\<forall>k. k \<noteq> ''sell_listings'' \<longrightarrow> map_of r k = map_of ?L k"
    by blast
  have "map_of m ''a'' = Some (JInt 3)" using ov [rule_format, of "''a''"] by simp
  moreover have "map_of m ''b'' = Some (JInt 2)" using ov [rule_format, of "''b''"] by simp
  moreover have "map_of m ''c'' = Some (JInt 5)" using ov [rule_format, of "''c''"] by simp
  moreover have "map_of r ''buy_orders'' = Some (JObj [(''b0'', JInt 7)])"
    using fr [rule_format, of "''buy_orders''"] by simp
  ultimately show ?thesis using r m h1 by blast
qed

section \<open>Purchases: the steps of \<^verbatim>\<open>buy_item\<close>\<close>

lemma io_bind_cookies:
  "io_bind (session_cookies S domain) f tr = f (cookies_get_dict S tr domain) tr"
  by (simp add: io_bind_def session_cookies_def)

lemma buy_item_first_response:
  assumes "was_login_executed self"
    and "map_of (cookies_get_dict (session self) tr ''steamcommunity.com'') ''sessionid'' = Some sid"
    and "http_post (session self) tr (buy_url D mid) (buy_data sid cur price fee)
           (buy_headers D game name) = Inr resp"
    and "json_body resp = Inr response"
  shows "buy_item D self name mid price fee game cur tr =
     io_bind (io_lift (wallet_success response)) (\<lambda>ok.
       if ok then io_return response
       else io_bind (io_lift (needs_confirmation response)) (\<lambda>pending.
         if pending
         then io_catch (buy_item_confirm self response (buy_url D mid) (buy_data sid cur price fee)
                (buy_headers D game name)) buy_item_handler
         else io_bind (io_lift (failure_message response)) (\<lambda>message.
           io_raise (ApiException (''Failed to buy item. Steam message: '' @ py_str D message)))))
       (tr @ [HttpPost (buy_url D mid) (buy_data sid cur price fee) (buy_headers D game name)])"
  using assms
  by (simp add: buy_item_def login_required_def io_bind_cookies io_bind_post
      io_bind_response_json Let_def)

lemma needs_confirmation_id:
  assumes "needs_confirmation response = Inr True"
  shows "\<exists>cid. sum_bind (py_subscript response ''confirmation'')
                  (\<lambda>c. py_subscript c ''confirmation_id'') = Inr cid \<and> truthy cid"
proof (cases response)
  case (JObj kvs)
  show ?thesis
  proof (cases "map_of kvs ''confirmation''")
    case None
    with JObj assms show ?thesis
      by (simp add: needs_confirmation_def split: if_splits)
  next
    case (Some c)
    show ?thesis
    proof (cases c)
      case (JObj ckvs)
      with Some \<open>response = JObj kvs\<close> assms show ?thesis
        by (cases "map_of ckvs ''confirmation_id''")
           (simp_all add: needs_confirmation_def split: if_splits)
    qed (use Some \<open>response = JObj kvs\<close> assms in
          \<open>simp_all add: needs_confirmation_def split: if_splits\<close>)
  qed
qed (use assms in \<open>simp_all add: needs_confirmation_def\<close>)

lemma send_all_ok:
  "(\<forall>i<length cs. \<exists>j. ce_send_confirmation S
        (tr @ map (SendConfirmation secret steamid) (take i cs)) secret steamid (cs ! i) = Inr j)
   \<Longrightarrow> send_all S secret steamid cs tr = (Inr (), tr @ map (SendConfirmation secret steamid) cs)"
proof (induction cs arbitrary: tr)
  case Nil
  then show ?case by simp
next
  case (Cons c cs)
  from Cons.prems [rule_format, of 0]
  obtain j where j: "ce_send_confirmation S tr secret steamid c = Inr j" by auto
  have "\<forall>i<length cs. \<exists>j. ce_send_confirmation S
          ((tr @ [SendConfirmation secret steamid c]) @ map (SendConfirmation secret steamid) (take i cs))
          secret steamid (cs ! i) = Inr j"
  proof (intro allI impI)
    fix i assume "i < length cs"
    with Cons.prems [rule_format, of "Suc i"] show "\<exists>j. ce_send_confirmation S
          ((tr @ [SendConfirmation secret steamid c]) @ map (SendConfirmation secret steamid) (take i cs))
          secret steamid (cs ! i) = Inr j" by simp
  qed
  from Cons.IH [OF this] j show ?case
    by (simp add: send_confirmation_def)
qed

lemma send_all_trace:
  "\<exists>evs. snd (send_all S secret steamid cs tr) = tr @ evs \<and> (\<forall>e\<in>set evs. \<not> is_post e)"
proof (induction cs arbitrary: tr)
  case Nil
  then show ?case by simp
next
  case (Cons c cs)
  show ?case
  proof (cases "ce_send_confirmation S tr secret steamid c")
    case (Inl e)
    then have "snd (send_all S secret steamid (c # cs) tr) = tr @ [SendConfirmation secret steamid c]"
      by (simp add: send_confirmation_def)
    then show ?thesis by fastforce
  next
    case (Inr j)
    from Cons.IH [of "tr @ [SendConfirmation secret steamid c]"]
    obtain evs where evs: "snd (send_all S secret steamid cs (tr @ [SendConfirmation secret steamid c]))
        = (tr @ [SendConfirmation secret steamid c]) @ evs" and np: "\<forall>e\<in>set evs. \<not> is_post e"
      by blast
    from Inr evs have "snd (send_all S secret steamid (c # cs) tr)
        = tr @ (SendConfirmation secret steamid c # evs)"
      by (simp add: send_confirmation_def)
    moreover from np have "\<forall>e\<in>set (SendConfirmation secret steamid c # evs). \<not> is_post e" by simp
    ultimately show ?thesis by blast
  qed
qed

lemma confirm_buy_listing_trace:
  "\<exists>evs. snd (confirm_buy_listing self tr) = tr @ evs \<and> (\<forall>e\<in>set evs. \<not> is_post e)"
proof (cases "py_subscript (steam_guard self) ''identity_secret''")
  case (Inl e)
  then show ?thesis by (simp add: confirm_buy_listing_def)
next
  case secret: (Inr secret)
  show ?thesis
  proof (cases "py_subscript (steam_guard self) ''steamid''")
    case (Inl e)
    with secret show ?thesis by (simp add: confirm_buy_listing_def)
  next
    case steamid: (Inr steamid)
    show ?thesis
    proof (cases "ce_get_confirmations (session self) tr secret steamid")
      case (Inl e)
      with secret steamid
      have "snd (confirm_buy_listing self tr) = tr @ [GetConfirmations secret steamid]"
        by (simp add: confirm_buy_listing_def io_bind_def get_confirmations_def)
      then show ?thesis by fastforce
    next
      case (Inr cs)
      from send_all_trace [of "session self" secret steamid cs "tr @ [GetConfirmations secret steamid]"]
      obtain evs where evs: "snd (send_all (session self) secret steamid cs
            (tr @ [GetConfirmations secret steamid])) = (tr @ [GetConfirmations secret steamid]) @ evs"
        and np: "\<forall>e\<in>set evs. \<not> is_post e" by blast
      from secret steamid Inr evs
      have "snd (confirm_buy_listing self tr) = tr @ (GetConfirmations secret steamid # evs)"
        by (cases "send_all (session self) secret steamid cs (tr @ [GetConfirmations secret steamid])")
           (auto simp: confirm_buy_listing_def io_bind_def get_confirmations_def split: sum.splits)
      moreover from np have "\<forall>e\<in>set (GetConfirmations secret steamid # evs). \<not> is_post e" by simp
      ultimately show ?thesis by blast
    qed
  qed
qed

lemma confirm_buy_listing_ok:
  assumes "steam_guard self = JObj g"
    and "map_of g ''identity_secret'' = Some secret"
    and "map_of g ''steamid'' = Some steamid"
    and "ce_get_confirmations (session self) tr secret steamid = Inr cs"
    and "\<forall>i<length cs. \<exists>j. ce_send_confirmation (session self)
          (tr @ [GetConfirmations secret steamid] @ map (SendConfirmation secret steamid) (take i cs))
          secret steamid (cs ! i) = Inr j"
  shows "confirm_buy_listing self tr =
           (Inr (JObj [(''success'', JBool True),
                       (''message'', JStr ''All pending confirmations have been accepted.'')]),
            tr @ [GetConfirmations secret steamid] @ map (SendConfirmation secret steamid) cs)"
proof -
  from assms(5) have "send_all (session self) secret steamid cs (tr @ [GetConfirmations secret steamid])
      = (Inr (), (tr @ [GetConfirmations secret steamid]) @ map (SendConfirmation secret steamid) cs)"
    by (intro send_all_ok) simp
  with assms(1-4) show ?thesis
    by (simp add: confirm_buy_listing_def io_bind_def get_confirmations_def)
qed

lemma io_bind_sleep: "io_bind (sleep n) f tr = f () (tr @ [Sleep n])"
  by (simp add: io_bind_def sleep_def)

lemma response_json_apply [simp]: "response_json r tr = (json_body r, tr)"
  by (simp add: response_json_def)

lemma io_bind_Inr: "m tr = (Inr x, tr') \<Longrightarrow> io_bind m f tr = f x tr'"
  by (simp add: io_bind_def)

lemma io_bind_Inl: "m tr = (Inl e, tr') \<Longrightarrow> io_bind m f tr = (Inl e, tr')"
  by (simp add: io_bind_def)

lemma buy_item_handler_trace: "snd (buy_item_handler e tr) = tr"
  by (cases e) (simp_all add: buy_item_handler_def)

lemma io_catch_trace: "(\<And>e t. snd (h e t) = t) \<Longrightarrow> snd (io_catch m h tr) = snd (m tr)"
  by (cases "m tr") (auto simp: io_catch_def split: sum.splits)

lemma send_all_Inr:
  "fst (send_all S secret steamid cs tr) = Inr u \<Longrightarrow>
   snd (send_all S secret steamid cs tr) = tr @ map (SendConfirmation secret steamid) cs"
proof (induction cs arbitrary: tr)
  case Nil
  then show ?case by simp
next
  case (Cons c cs)
  show ?case
  proof (cases "ce_send_confirmation S tr secret steamid c")
    case (Inl e)
    with Cons.prems show ?thesis by (simp add: send_confirmation_def)
  next
    case (Inr j)
    with Cons.prems Cons.IH [of "tr @ [SendConfirmation secret steamid c]"]
    show ?thesis by (simp add: send_confirmation_def)
  qed
qed

lemma confirm_buy_listing_Inr:
  assumes "fst (confirm_buy_listing self tr) = Inr r"
  shows "\<exists>secret steamid cs.
           py_subscript (steam_guard self) ''identity_secret'' = Inr secret
         \<and> py_subscript (steam_guard self) ''steamid'' = Inr steamid
         \<and> ce_get_confirmations (session self) tr secret steamid = Inr cs
         \<and> snd (confirm_buy_listing self tr)
             = tr @ GetConfirmations secret steamid # map (SendConfirmation secret steamid) cs"
proof (cases "py_subscript (steam_guard self) ''identity_secret''")
  case (Inl e)
  with assms show ?thesis by (simp add: confirm_buy_listing_def)
next
  case secret: (Inr secret)
  show ?thesis
  proof (cases "py_subscript (steam_guard self) ''steamid''")
    case (Inl e)
    with secret assms show ?thesis by (simp add: confirm_buy_listing_def)
  next
    case steamid: (Inr steamid)
    show ?thesis
    proof (cases "ce_get_confirmations (session self) tr secret steamid")
      case (Inl e)
      with secret steamid assms show ?thesis
        by (simp add: confirm_buy_listing_def io_bind_def get_confirmations_def)
    next
      case (Inr cs)
      let ?tr = "tr @ [GetConfirmations secret steamid]"
      from secret steamid Inr assms
      have ok: "fst (send_all (session self) secret steamid cs ?tr) = Inr ()"
        by (cases "send_all (session self) secret steamid cs ?tr")
           (auto simp: confirm_buy_listing_def io_bind_def get_confirmations_def split: sum.splits)
      from send_all_Inr [OF ok]
      have "send_all (session self) secret steamid cs ?tr
              = (Inr (), ?tr @ map (SendConfirmation secret steamid) cs)"
        using ok by (metis prod.collapse)
      with secret steamid Inr
      have "snd (confirm_buy_listing self tr)
              = tr @ GetConfirmations secret steamid # map (SendConfirmation secret steamid) cs"
        by (simp add: confirm_buy_listing_def io_bind_def get_confirmations_def)
      with secret steamid Inr show ?thesis by blast
    qed
  qed
qed

lemma buy_item_confirm_order:
  assumes "sum_bind (py_subscript response ''confirmation'') (\<lambda>c. py_subscript c ''confirmation_id'')
             = Inr cid"
    and "snd (buy_item_confirm self response url data headers tr) = tr @ rest"
    and "\<exists>e\<in>set rest. is_post e"
  shows "\<exists>secret steamid cs.
           ce_get_confirmations (session self) tr secret steamid = Inr cs
         \<and> rest = GetConfirmations secret steamid # map (SendConfirmation secret steamid) cs
                    @ [Sleep 1, HttpPost url (AList.update ''confirmation'' cid data) headers]"
proof (cases "fst (confirm_buy_listing self tr)")
  case (Inl e)
  from confirm_buy_listing_trace [of self tr]
  obtain evs where evs: "snd (confirm_buy_listing self tr) = tr @ evs"
    and np: "\<forall>e\<in>set evs. \<not> is_post e" by blast
  from Inl evs have "confirm_buy_listing self tr = (Inl e, tr @ evs)"
    by (metis prod.collapse)
  then have "snd (buy_item_confirm self response url data headers tr) = tr @ evs"
    using assms(1) by (simp add: buy_item_confirm_def Let_def io_bind_Inl)
  with assms(2) have "rest = evs" by simp
  with np assms(3) show ?thesis by blast
next
  case (Inr r)
  from confirm_buy_listing_Inr [OF Inr]
  obtain secret steamid cs where
    gc: "ce_get_confirmations (session self) tr secret steamid = Inr cs"
    and tr': "snd (confirm_buy_listing self tr)
        = tr @ GetConfirmations secret steamid # map (SendConfirmation secret steamid) cs"
    by blast
  from Inr tr' have c: "confirm_buy_listing self tr
      = (Inr r, tr @ GetConfirmations secret steamid # map (SendConfirmation secret steamid) cs)"
    by (metis prod.collapse)
  have "snd (buy_item_confirm self response url data headers tr)
      = tr @ (GetConfirmations secret steamid # map (SendConfirmation secret steamid) cs
               @ [Sleep 1, HttpPost url (AList.update ''confirmation'' cid data) headers])"
    using assms(1)
    by (simp add: buy_item_confirm_def Let_def io_bind_Inr [of "confirm_buy_listing self" tr, OF c]
        io_bind_sleep io_bind_post split: sum.splits)
  with assms(2) have "rest = GetConfirmations secret steamid # map (SendConfirmation secret steamid) cs
               @ [Sleep 1, HttpPost url (AList.update ''confirmation'' cid data) headers]"
    by simp
  with gc show ?thesis by blast
qed

section \<open>Purchases: confirmation and resubmission\<close>

text \<open>
  Claim C1, as stated, covers every call whose first response has \<open>success\<close> equal to 22 and
  a confirmation id.  The test of the wallet block comes first in \<open>buy_item\<close> and calls
  \<^verbatim>\<open>.get\<close> on whatever truthy value the entry \<open>wallet_info\<close> holds: when that value is not a
  dictionary (a string here), the call raises \<open>AttributeError\<close> after the first request,
  and neither the confirmation service nor a second request appears in the trace.
\<close>

theorem wallet_test_raises_counterexample:
  "needs_confirmation (JObj [(''success'', JInt 22), (''wallet_info'', JStr ''unavailable''),
       (''confirmation'', JObj [(''confirmation_id'', JStr ''123'')])]) = Inr True
   \<and> buy_item deps0
       (logged_in (scripted []
          [json_response (JObj [(''success'', JInt 22), (''wallet_info'', JStr ''unavailable''),
             (''confirmation'', JObj [(''confirmation_id'', JStr ''123'')])]),
           json_response (JObj [(''wallet_info'', JObj [(''success'', JInt 1)])])]
          [1 :: nat, 2]))
       ''AK'' ''99'' 100 13 game0 usd []
     = (Inl (AttributeError ([CHR 0x27] @ ''str'' @ [CHR 0x27] @ '' object has no attribute ''
               @ [CHR 0x27] @ ''get'' @ [CHR 0x27])),
        [HttpPost (buy_url deps0 ''99'') (buy_data ''5e55'' usd 100 13) (buy_headers deps0 game0 ''AK'')])"
  by (simp add: buy_item_def login_required_def io_bind_cookies io_bind_post io_bind_response_json
      wallet_success_def needs_confirmation_def env_defs Let_def)

text \<open>
  Claim C1, amended.  For every \<open>buy_item\<close> call whose first response has \<open>success\<close> equal
  to 22 and a truthy confirmation id, what follows depends on the wallet test, which is
  made first.  When that test raises (\<open>wallet_info\<close> is truthy and not a dictionary), the
  call raises the same error after the one request.  When it comes out true
  (\<open>wallet_info.success\<close> equals 1), the first response is returned at once.  When it comes
  out false, the confirmation step is entered, and in every run: if a second request is
  sent at all, the trace after the first request is exactly the fetch of the pending
  confirmations, one acceptance for each confirmation that the fetch returned, in order,
  a sleep of one second, and the second request, which goes to the same address with the
  same headers and the payload whose \<open>confirmation\<close> entry is now the confirmation id.  In
  a run in which the guard record holds the secret and the account id, the fetch and
  every acceptance succeed and the second request is answered with a JSON body, the call
  returns that body as it is, whatever it holds, with exactly this trace.
\<close>

theorem confirm_then_resubmit:
  assumes "was_login_executed self"
    and "map_of (cookies_get_dict (session self) tr ''steamcommunity.com'') ''sessionid'' = Some sid"
    and "http_post (session self) tr (buy_url D mid) (buy_data sid cur price fee)
           (buy_headers D game name) = Inr resp"
    and "json_body resp = Inr response"
    and "needs_confirmation response = Inr True"
    and "P0 = HttpPost (buy_url D mid) (buy_data sid cur price fee) (buy_headers D game name)"
  shows "\<exists>cid P1.
      sum_bind (py_subscript response ''confirmation'') (\<lambda>c. py_subscript c ''confirmation_id'')
        = Inr cid
    \<and> truthy cid
    \<and> P1 = HttpPost (buy_url D mid) (AList.update ''confirmation'' cid (buy_data sid cur price fee))
             (buy_headers D game name)
    \<and> (\<forall>e. wallet_success response = Inl e \<longrightarrow>
          buy_item D self name mid price fee game cur tr = (Inl e, tr @ [P0]))
    \<and> (wallet_success response = Inr True \<longrightarrow>
          buy_item D self name mid price fee game cur tr = (Inr response, tr @ [P0]))
    \<and> (wallet_success response = Inr False \<longrightarrow>
          (\<forall>rest. snd (buy_item D self name mid price fee game cur tr) = tr @ P0 # rest
                  \<and> (\<exists>e\<in>set rest. is_post e) \<longrightarrow>
             (\<exists>secret steamid cs.
                 ce_get_confirmations (session self) (tr @ [P0]) secret steamid = Inr cs
               \<and> rest = GetConfirmations secret steamid # map (SendConfirmation secret steamid) cs
                          @ [Sleep 1, P1]))
        \<and> (\<forall>g secret steamid cs resp2 final_response.
               steam_guard self = JObj g
             \<and> map_of g ''identity_secret'' = Some secret
             \<and> map_of g ''steamid'' = Some steamid
             \<and> ce_get_confirmations (session self) (tr @ [P0]) secret steamid = Inr cs
             \<and> (\<forall>i<length cs. \<exists>j. ce_send_confirmation (session self)
                    (tr @ [P0] @ [GetConfirmations secret steamid]
                        @ map (SendConfirmation secret steamid) (take i cs))
                    secret steamid (cs ! i) = Inr j)
             \<and> http_post (session self)
                    (tr @ [P0] @ [GetConfirmations secret steamid]
                        @ map (SendConfirmation secret steamid) cs @ [Sleep 1])
                    (buy_url D mid) (AList.update ''confirmation'' cid (buy_data sid cur price fee))
                    (buy_headers D game name) = Inr resp2
             \<and> json_body resp2 = Inr final_response
             \<longrightarrow> buy_item D self name mid price fee game cur tr =
                   (Inr final_response,
                    tr @ P0 # GetConfirmations secret steamid
                       # map (SendConfirmation secret steamid) cs @ [Sleep 1, P1])))"
proof -
  let ?url = "buy_url D mid" and ?data = "buy_data sid cur price fee"
    and ?headers = "buy_headers D game name"
  from needs_confirmation_id [OF assms(5)]
  obtain cid where cid: "sum_bind (py_subscript response ''confirmation'')
      (\<lambda>c. py_subscript c ''confirmation_id'') = Inr cid" and tcid: "truthy cid" by blast
  let ?P1 = "HttpPost ?url (AList.update ''confirmation'' cid ?data) ?headers"
  note first = buy_item_first_response [OF assms(1-4), folded assms(6)]
  have raises: "\<forall>e. wallet_success response = Inl e \<longrightarrow>
          buy_item D self name mid price fee game cur tr = (Inl e, tr @ [P0])"
    by (simp add: first)
  have ok: "wallet_success response = Inr True \<longrightarrow>
          buy_item D self name mid price fee game cur tr = (Inr response, tr @ [P0])"
    by (simp add: first)
  have order: "\<forall>rest. snd (buy_item D self name mid price fee game cur tr) = tr @ P0 # rest
                  \<and> (\<exists>e\<in>set rest. is_post e) \<longrightarrow>
             (\<exists>secret steamid cs.
                 ce_get_confirmations (session self) (tr @ [P0]) secret steamid = Inr cs
               \<and> rest = GetConfirmations secret steamid # map (SendConfirmation secret steamid) cs
                          @ [Sleep 1, ?P1])"
    if w: "wallet_success response = Inr False"
  proof (intro allI impI, elim conjE)
    fix rest
    assume run: "snd (buy_item D self name mid price fee game cur tr) = tr @ P0 # rest"
      and post: "\<exists>e\<in>set rest. is_post e"
    from w assms(5) run
    have "snd (buy_item_confirm self response ?url ?data ?headers (tr @ [P0])) = (tr @ [P0]) @ rest"
      by (simp add: first io_catch_trace buy_item_handler_trace)
    from buy_item_confirm_order [OF cid this post]
    show "\<exists>secret steamid cs.
                 ce_get_confirmations (session self) (tr @ [P0]) secret steamid = Inr cs
               \<and> rest = GetConfirmations secret steamid # map (SendConfirmation secret steamid) cs
                          @ [Sleep 1, ?P1]" .
  qed
  have full: "\<forall>g secret steamid cs resp2 final_response.
               steam_guard self = JObj g
             \<and> map_of g ''identity_secret'' = Some secret
             \<and> map_of g ''steamid'' = Some steamid
             \<and> ce_get_confirmations (session self) (tr @ [P0]) secret steamid = Inr cs
             \<and> (\<forall>i<length cs. \<exists>j. ce_send_confirmation (session self)
                    (tr @ [P0] @ [GetConfirmations secret steamid]
                        @ map (SendConfirmation secret steamid) (take i cs))
                    secret steamid (cs ! i) = Inr j)
             \<and> http_post (session self)
                    (tr @ [P0] @ [GetConfirmations secret steamid]
                        @ map (SendConfirmation secret steamid) cs @ [Sleep 1])
                    (buy_url D mid) (AList.update ''confirmation'' cid (buy_data sid cur price fee))
                    (buy_headers D game name) = Inr resp2
             \<and> json_body resp2 = Inr final_response
             \<longrightarrow> buy_item D self name mid price fee game cur tr =
                   (Inr final_response,
                    tr @ P0 # GetConfirmations secret steamid
                       # map (SendConfirmation secret steamid) cs @ [Sleep 1, ?P1])"
    if w: "wallet_success response = Inr False"
  proof (intro allI impI, elim conjE)
    fix g secret steamid cs resp2 final_response
    assume g: "steam_guard self = JObj g" "map_of g ''identity_secret'' = Some secret"
        "map_of g ''steamid'' = Some steamid"
      and gc: "ce_get_confirmations (session self) (tr @ [P0]) secret steamid = Inr cs"
      and sends: "\<forall>i<length cs. \<exists>j. ce_send_confirmation (session self)
                    (tr @ [P0] @ [GetConfirmations secret steamid]
                        @ map (SendConfirmation secret steamid) (take i cs))
                    secret steamid (cs ! i) = Inr j"
      and p2: "http_post (session self)
                    (tr @ [P0] @ [GetConfirmations secret steamid]
                        @ map (SendConfirmation secret steamid) cs @ [Sleep 1])
                    ?url (AList.update ''confirmation'' cid ?data) ?headers = Inr resp2"
      and j2: "json_body resp2 = Inr final_response"
    have conf: "confirm_buy_listing self (tr @ [P0]) =
        (Inr (JObj [(''success'', JBool True),
                    (''message'', JStr ''All pending confirmations have been accepted.'')]),
         (tr @ [P0]) @ [GetConfirmations secret steamid] @ map (SendConfirmation secret steamid) cs)"
      using g gc sends by (intro confirm_buy_listing_ok) simp_all
    have "buy_item_confirm self response ?url ?data ?headers (tr @ [P0]) =
          (Inr final_response,
           tr @ P0 # GetConfirmations secret steamid # map (SendConfirmation secret steamid) cs
              @ [Sleep 1, ?P1])"
      using cid p2 j2
      by (simp add: buy_item_confirm_def Let_def
          io_bind_Inr [of "confirm_buy_listing self" "tr @ [P0]", OF conf] io_bind_sleep io_bind_post)
    then show "buy_item D self name mid price fee game cur tr =
                   (Inr final_response,
                    tr @ P0 # GetConfirmations secret steamid
                       # map (SendConfirmation secret steamid) cs @ [Sleep 1, ?P1])"
      using w assms(5) by (simp add: first io_catch_def)
  qed
  show ?thesis
    by (rule exI [of _ cid], rule exI [of _ ?P1], intro conjI impI)
       (fact cid, fact tcid, rule refl, fact raises, rule ok [rule_format], assumption,
        rule order, assumption, rule full, assumption)
qed

theorem confirm_then_resubmit_witness:
  "needs_confirmation (JObj [(''success'', JInt 22),
       (''confirmation'', JObj [(''confirmation_id'', JStr ''123'')])]) = Inr True
   \<and> wallet_success (JObj [(''success'', JInt 22),
       (''confirmation'', JObj [(''confirmation_id'', JStr ''123'')])]) = Inr False
   \<and> buy_item deps0
       (logged_in (scripted []
          [json_response (JObj [(''success'', JInt 22),
             (''confirmation'', JObj [(''confirmation_id'', JStr ''123'')])]),
           json_response (JObj [(''wallet_info'', JObj [(''success'', JInt 1)])])]
          [1 :: nat, 2]))
       ''AK'' ''99'' 100 13 game0 usd []
     = (Inr (JObj [(''wallet_info'', JObj [(''success'', JInt 1)])]),
        [HttpPost (buy_url deps0 ''99'') (buy_data ''5e55'' usd 100 13) (buy_headers deps0 game0 ''AK''),
         GetConfirmations (JStr ''c2VjcmV0'') (JStr ''7656''),
         SendConfirmation (JStr ''c2VjcmV0'') (JStr ''7656'') 1,
         SendConfirmation (JStr ''c2VjcmV0'') (JStr ''7656'') 2,
         Sleep 1,
         HttpPost (buy_url deps0 ''99'')
           (AList.update ''confirmation'' (JStr ''123'') (buy_data ''5e55'' usd 100 13))
           (buy_headers deps0 game0 ''AK'')])
   \<and> needs_confirmation (JObj [(''success'', JInt 22), (''wallet_info'', JInt 7),
       (''confirmation'', JObj [(''confirmation_id'', JStr ''123'')])]) = Inr True
   \<and> buy_item deps0
       (logged_in (scripted []
          [json_response (JObj [(''success'', JInt 22), (''wallet_info'', JInt 7),
             (''confirmation'', JObj [(''confirmation_id'', JStr ''123'')])])]
          [1 :: nat, 2]))
       ''AK'' ''99'' 100 13 game0 usd []
     = (Inl (AttributeError ([CHR 0x27] @ ''int'' @ [CHR 0x27] @ '' object has no attribute ''
               @ [CHR 0x27] @ ''get'' @ [CHR 0x27])),
        [HttpPost (buy_url deps0 ''99'') (buy_data ''5e55'' usd 100 13) (buy_headers deps0 game0 ''AK'')])"
proof -
  let ?R1 = "JObj [(''success'', JInt 22), (''confirmation'', JObj [(''confirmation_id'', JStr ''123'')])]"
  let ?R2 = "JObj [(''wallet_info'', JObj [(''success'', JInt 1)])]"
  let ?R3 = "JObj [(''success'', JInt 22), (''wallet_info'', JInt 7),
                   (''confirmation'', JObj [(''confirmation_id'', JStr ''123'')])]"
  let ?M = "logged_in (scripted [] [json_response ?R1, json_response ?R2] [1 :: nat, 2])"
  let ?M3 = "logged_in (scripted [] [json_response ?R3] [1 :: nat, 2])"
  let ?g = "[(''steamid'', JStr ''7656''), (''identity_secret'', JStr ''c2VjcmV0'')]"
  let ?P0 = "HttpPost (buy_url deps0 ''99'') (buy_data ''5e55'' usd 100 13) (buy_headers deps0 game0 ''AK'')"
  have h1: "was_login_executed ?M" by (simp add: env_defs)
  have h2: "map_of (cookies_get_dict (session ?M) [] ''steamcommunity.com'') ''sessionid'' = Some ''5e55''"
    by (simp add: env_defs)
  have h3: "http_post (session ?M) [] (buy_url deps0 ''99'') (buy_data ''5e55'' usd 100 13)
              (buy_headers deps0 game0 ''AK'') = Inr (json_response ?R1)"
    by (simp add: env_defs)
  have h4: "json_body (json_response ?R1) = Inr ?R1" by (simp add: env_defs)
  have h5: "wallet_success ?R1 = Inr False" by (simp add: wallet_success_def)
  have h6: "needs_confirmation ?R1 = Inr True" by (simp add: needs_confirmation_def)
  have h7: "sum_bind (py_subscript ?R1 ''confirmation'') (\<lambda>c. py_subscript c ''confirmation_id'')
              = Inr (JStr ''123'')" by simp
  have h8: "steam_guard ?M = JObj ?g" by (simp add: env_defs)
  have h9: "map_of ?g ''identity_secret'' = Some (JStr ''c2VjcmV0'')" by simp
  have h10: "map_of ?g ''steamid'' = Some (JStr ''7656'')" by simp
  have h11: "ce_get_confirmations (session ?M) ([] @ [?P0]) (JStr ''c2VjcmV0'') (JStr ''7656'') = Inr [1, 2]"
    by (simp add: env_defs)
  have h12: "\<forall>i<length [1 :: nat, 2]. \<exists>j. ce_send_confirmation (session ?M)
      ([] @ [?P0] @ [GetConfirmations (JStr ''c2VjcmV0'') (JStr ''7656'')]
          @ map (SendConfirmation (JStr ''c2VjcmV0'') (JStr ''7656'')) (take i [1, 2]))
      (JStr ''c2VjcmV0'') (JStr ''7656'') ([1, 2] ! i) = Inr j"
    by (simp add: env_defs)
  have h13: "http_post (session ?M)
      ([] @ [?P0] @ [GetConfirmations (JStr ''c2VjcmV0'') (JStr ''7656'')]
          @ map (SendConfirmation (JStr ''c2VjcmV0'') (JStr ''7656'')) [1, 2] @ [Sleep 1])
      (buy_url deps0 ''99'') (AList.update ''confirmation'' (JStr ''123'') (buy_data ''5e55'' usd 100 13))
      (buy_headers deps0 game0 ''AK'') = Inr (json_response ?R2)"
    by (simp add: env_defs)
  have h14: "json_body (json_response ?R2) = Inr ?R2" by (simp add: env_defs)
  from confirm_then_resubmit [OF h1 h2 h3 h4 h6 refl]
  obtain cid where cid: "sum_bind (py_subscript ?R1 ''confirmation'')
        (\<lambda>c. py_subscript c ''confirmation_id'') = Inr cid"
    and full: "wallet_success ?R1 = Inr False \<longrightarrow>
       (\<forall>g secret steamid cs resp2 final_response.
               steam_guard ?M = JObj g
             \<and> map_of g ''identity_secret'' = Some secret
             \<and> map_of g ''steamid'' = Some steamid
             \<and> ce_get_confirmations (session ?M) ([] @ [?P0]) secret steamid = Inr cs
             \<and> (\<forall>i<length cs. \<exists>j. ce_send_confirmation (session ?M)
                    ([] @ [?P0] @ [GetConfirmations secret steamid]
                        @ map (SendConfirmation secret steamid) (take i cs))
                    secret steamid (cs ! i) = Inr j)
             \<and> http_post (session ?M)
                    ([] @ [?P0] @ [GetConfirmations secret steamid]
                        @ map (SendConfirmation secret steamid) cs @ [Sleep 1])
                    (buy_url deps0 ''99'') (AList.update ''confirmation'' cid (buy_data ''5e55'' usd 100 13))
                    (buy_headers deps0 game0 ''AK'') = Inr resp2
             \<and> json_body resp2 = Inr final_response
             \<longrightarrow> buy_item deps0 ?M ''AK'' ''99'' 100 13 game0 usd [] =
                   (Inr final_response,
                    [] @ ?P0 # GetConfirmations secret steamid
                       # map (SendConfirmation secret steamid) cs
                       @ [Sleep 1, HttpPost (buy_url deps0 ''99'')
                            (AList.update ''confirmation'' cid (buy_data ''5e55'' usd 100 13))
                            (buy_headers deps0 game0 ''AK'')]))"
    by blast
  from cid h7 have c: "cid = JStr ''123''" by simp
  from full [rule_format, OF h5, of ?g "JStr ''c2VjcmV0''" "JStr ''7656''" "[1, 2]"
      "json_response ?R2" ?R2] h8 h9 h10 h11 h12 h13 h14 c
  have run1: "buy_item deps0 ?M ''AK'' ''99'' 100 13 game0 usd [] =
     (Inr ?R2,
        [?P0,
         GetConfirmations (JStr ''c2VjcmV0'') (JStr ''7656''),
         SendConfirmation (JStr ''c2VjcmV0'') (JStr ''7656'') 1,
         SendConfirmation (JStr ''c2VjcmV0'') (JStr ''7656'') 2,
         Sleep 1,
         HttpPost (buy_url deps0 ''99'')
           (AList.update ''confirmation'' (JStr ''123'') (buy_data ''5e55'' usd 100 13))
           (buy_headers deps0 game0 ''AK'')])"
    by simp
  have k1: "was_login_executed ?M3" by (simp add: env_defs)
  have k2: "map_of (cookies_get_dict (session ?M3) [] ''steamcommunity.com'') ''sessionid'' = Some ''5e55''"
    by (simp add: env_defs)
  have k3: "http_post (session ?M3) [] (buy_url deps0 ''99'') (buy_data ''5e55'' usd 100 13)
              (buy_headers deps0 game0 ''AK'') = Inr (json_response ?R3)"
    by (simp add: env_defs)
  have k4: "json_body (json_response ?R3) = Inr ?R3" by (simp add: env_defs)
  have k5: "wallet_success ?R3 = Inl (AttributeError ([CHR 0x27] @ ''int'' @ [CHR 0x27]
               @ '' object has no attribute '' @ [CHR 0x27] @ ''get'' @ [CHR 0x27]))"
    by (simp add: wallet_success_def)
  have k6: "needs_confirmation ?R3 = Inr True" by (simp add: needs_confirmation_def)
  from confirm_then_resubmit [OF k1 k2 k3 k4 k6 refl] k5
  have run3: "buy_item deps0 ?M3 ''AK'' ''99'' 100 13 game0 usd [] =
     (Inl (AttributeError ([CHR 0x27] @ ''int'' @ [CHR 0x27] @ '' object has no attribute ''
               @ [CHR 0x27] @ ''get'' @ [CHR 0x27])), [?P0])"
    by auto
  from h6 h5 run1 k6 run3 show ?thesis by simp
qed

lemma buy_item_confirm_trace:
  assumes "sum_bind (py_subscript response ''confirmation'') (\<lambda>c. py_subscript c ''confirmation_id'')
             = Inr cid"
  shows "\<exists>rest. snd (buy_item_confirm self response url data headers tr) = tr @ rest
           \<and> (\<forall>e\<in>set rest. is_post e \<longrightarrow>
                 e = HttpPost url (AList.update ''confirmation'' cid data) headers)
           \<and> length (filter is_post rest) \<le> 1"
proof -
  from confirm_buy_listing_trace [of self tr]
  obtain evs where evs: "snd (confirm_buy_listing self tr) = tr @ evs"
    and np: "\<forall>e\<in>set evs. \<not> is_post e" by blast
  from np have f0: "filter is_post evs = []" by (simp add: filter_empty_conv)
  show ?thesis
  proof (cases "fst (confirm_buy_listing self tr)")
    case (Inl e)
    with evs have "confirm_buy_listing self tr = (Inl e, tr @ evs)"
      by (metis prod.collapse)
    then have "snd (buy_item_confirm self response url data headers tr) = tr @ evs"
      using assms by (simp add: buy_item_confirm_def Let_def io_bind_Inl)
    with np f0 show ?thesis by auto
  next
    case (Inr r)
    with evs have c: "confirm_buy_listing self tr = (Inr r, tr @ evs)"
      by (metis prod.collapse)
    let ?P = "HttpPost url (AList.update ''confirmation'' cid data) headers"
    have "snd (buy_item_confirm self response url data headers tr) = tr @ (evs @ [Sleep 1, ?P])"
      using assms
      by (simp add: buy_item_confirm_def Let_def io_bind_Inr [of "confirm_buy_listing self" tr, OF c]
          io_bind_sleep io_bind_post split: sum.splits)
    moreover have "\<forall>e\<in>set (evs @ [Sleep 1, ?P]). is_post e \<longrightarrow> e = ?P"
      using np by auto
    moreover have "length (filter is_post (evs @ [Sleep 1, ?P])) \<le> 1"
      using f0 by simp
    ultimately show ?thesis by blast
  qed
qed

text \<open>
  Claim C10.  In the confirmation path of \<open>buy_item\<close> (the first response fails the wallet
  test and asks for a confirmation), whatever the confirmation service and the network do
  afterwards, the trace after the first request holds at most one further request, and it
  is the first request again: the same address, the same headers, and the same form with
  the same keys in the same order, in which only the entry \<open>confirmation\<close> has changed, from
  the string \<open>0\<close> to the confirmation id of the first response.
\<close>

theorem resubmission_payload:
  assumes "was_login_executed self"
    and "map_of (cookies_get_dict (session self) tr ''steamcommunity.com'') ''sessionid'' = Some sid"
    and "http_post (session self) tr (buy_url D mid) (buy_data sid cur price fee)
           (buy_headers D game name) = Inr resp"
    and "json_body resp = Inr response"
    and "wallet_success response = Inr False"
    and "needs_confirmation response = Inr True"
  shows "\<exists>cid rest.
           sum_bind (py_subscript response ''confirmation'') (\<lambda>c. py_subscript c ''confirmation_id'')
             = Inr cid
         \<and> snd (buy_item D self name mid price fee game cur tr)
             = tr @ [HttpPost (buy_url D mid) (buy_data sid cur price fee) (buy_headers D game name)]
                  @ rest
         \<and> (\<forall>e\<in>set rest. is_post e \<longrightarrow>
               e = HttpPost (buy_url D mid)
                     (AList.update ''confirmation'' cid (buy_data sid cur price fee))
                     (buy_headers D game name))
         \<and> length (filter is_post rest) \<le> 1
         \<and> map_of (buy_data sid cur price fee) ''confirmation'' = Some (JStr ''0'')
         \<and> map_of (AList.update ''confirmation'' cid (buy_data sid cur price fee)) ''confirmation''
             = Some cid
         \<and> (\<forall>k. k \<noteq> ''confirmation'' \<longrightarrow>
               map_of (AList.update ''confirmation'' cid (buy_data sid cur price fee)) k
               = map_of (buy_data sid cur price fee) k)
         \<and> map fst (AList.update ''confirmation'' cid (buy_data sid cur price fee))
             = map fst (buy_data sid cur price fee)"
proof -
  let ?P0 = "HttpPost (buy_url D mid) (buy_data sid cur price fee) (buy_headers D game name)"
  from needs_confirmation_id [OF assms(6)]
  obtain cid where cid: "sum_bind (py_subscript response ''confirmation'')
      (\<lambda>c. py_subscript c ''confirmation_id'') = Inr cid" by blast
  from buy_item_confirm_trace [OF cid, of self "buy_url D mid" "buy_data sid cur price fee"
      "buy_headers D game name" "tr @ [?P0]"]
  obtain rest where rest: "snd (buy_item_confirm self response (buy_url D mid) (buy_data sid cur price fee)
        (buy_headers D game name) (tr @ [?P0])) = (tr @ [?P0]) @ rest"
    and only: "\<forall>e\<in>set rest. is_post e \<longrightarrow>
        e = HttpPost (buy_url D mid) (AList.update ''confirmation'' cid (buy_data sid cur price fee))
              (buy_headers D game name)"
    and one: "length (filter is_post rest) \<le> 1" by blast
  have run: "snd (buy_item D self name mid price fee game cur tr) = tr @ [?P0] @ rest"
    using assms(5,6) rest
    by (simp add: buy_item_first_response [OF assms(1-4)] io_catch_trace buy_item_handler_trace)
  have d0: "map_of (buy_data sid cur price fee) ''confirmation'' = Some (JStr ''0'')"
    by (simp add: buy_data_def)
  have d1: "map_of (AList.update ''confirmation'' cid (buy_data sid cur price fee)) ''confirmation''
      = Some cid" by (simp add: update_conv')
  have d2: "\<forall>k. k \<noteq> ''confirmation'' \<longrightarrow>
      map_of (AList.update ''confirmation'' cid (buy_data sid cur price fee)) k
      = map_of (buy_data sid cur price fee) k" by (simp add: update_conv')
  have d3: "map fst (AList.update ''confirmation'' cid (buy_data sid cur price fee))
      = map fst (buy_data sid cur price fee)" by (simp add: buy_data_def)
  from cid run only one d0 d1 d2 d3 show ?thesis by blast
qed

theorem resubmission_payload_witness:
  "wallet_success (JObj [(''success'', JInt 22),
       (''confirmation'', JObj [(''confirmation_id'', JStr ''123'')])]) = Inr False
   \<and> needs_confirmation (JObj [(''success'', JInt 22),
       (''confirmation'', JObj [(''confirmation_id'', JStr ''123'')])]) = Inr True
   \<and> (\<exists>rest.
        snd (buy_item deps0
          (logged_in (scripted []
             [json_response (JObj [(''success'', JInt 22),
                (''confirmation'', JObj [(''confirmation_id'', JStr ''123'')])]),
              json_response (JObj [(''wallet_info'', JObj [(''success'', JInt 1)])])]
             [1 :: nat, 2]))
          ''AK'' ''99'' 100 13 game0 usd [])
        = [HttpPost (buy_url deps0 ''99'') (buy_data ''5e55'' usd 100 13) (buy_headers deps0 game0 ''AK'')]
            @ rest
      \<and> (\<forall>e\<in>set rest. is_post e \<longrightarrow>
            e = HttpPost (buy_url deps0 ''99'')
                  (AList.update ''confirmation'' (JStr ''123'') (buy_data ''5e55'' usd 100 13))
                  (buy_headers deps0 game0 ''AK''))
      \<and> length (filter is_post rest) \<le> 1)"
proof -
  let ?R1 = "JObj [(''success'', JInt 22), (''confirmation'', JObj [(''confirmation_id'', JStr ''123'')])]"
  let ?R2 = "JObj [(''wallet_info'', JObj [(''success'', JInt 1)])]"
  let ?M = "logged_in (scripted [] [json_response ?R1, json_response ?R2] [1 :: nat, 2])"
  have h1: "was_login_executed ?M" by (simp add: env_defs)
  have h2: "map_of (cookies_get_dict (session ?M) [] ''steamcommunity.com'') ''sessionid'' = Some ''5e55''"
    by (simp add: env_defs)
  have h3: "http_post (session ?M) [] (buy_url deps0 ''99'') (buy_data ''5e55'' usd 100 13)
              (buy_headers deps0 game0 ''AK'') = Inr (json_response ?R1)"
    by (simp add: env_defs)
  have h4: "json_body (json_response ?R1) = Inr ?R1" by (simp add: env_defs)
  have h5: "wallet_success ?R1 = Inr False" by (simp add: wallet_success_def)
  have h6: "needs_confirmation ?R1 = Inr True" by (simp add: needs_confirmation_def)
  from resubmission_payload [OF h1 h2 h3 h4 h5 h6] h5 h6
  show ?thesis by auto
qed

section \<open>Purchases: the failure message\<close>

text \<open>
  Claim C5, as stated, takes the message from the top-level \<open>message\<close> entry and falls back
  to the wallet block only when that entry is absent.  With a top-level entry that is
  present and empty, the message raised is the one of the wallet block.
\<close>

theorem empty_message_counterexample:
  "map_of [(''message'', JStr []),
           (''wallet_info'', JObj [(''success'', JInt 0), (''message'', JStr ''Insufficient funds'')])]
     ''message'' = Some (JStr [])
   \<and> wallet_success (JObj [(''message'', JStr []),
        (''wallet_info'', JObj [(''success'', JInt 0), (''message'', JStr ''Insufficient funds'')])])
      = Inr False
   \<and> needs_confirmation (JObj [(''message'', JStr []),
        (''wallet_info'', JObj [(''success'', JInt 0), (''message'', JStr ''Insufficient funds'')])])
      = Inr False
   \<and> fst (buy_item deps0
        (logged_in (scripted []
           [json_response (JObj [(''message'', JStr []),
              (''wallet_info'', JObj [(''success'', JInt 0), (''message'', JStr ''Insufficient funds'')])])]
           ([] :: nat list)))
        ''AK'' ''99'' 100 13 game0 usd [])
      = Inl (ApiException ''Failed to buy item. Steam message: Insufficient funds'')"
  by (simp add: buy_item_def login_required_def io_bind_cookies io_bind_post io_bind_response_json
      wallet_success_def needs_confirmation_def failure_message_def env_defs Let_def)

text \<open>
  Claim C5, amended.  For every \<open>buy_item\<close> call whose first response is a JSON object for
  which neither the wallet test nor the confirmation test comes out true, the call raises
  an error after the one request.  The error is the \<open>AttributeError\<close> of the test itself
  when \<open>wallet_info\<close> is truthy and not a dictionary, or else when \<open>success\<close> equals 22 and
  the \<open>confirmation\<close> entry is not a dictionary.  In every other case it is \<open>ApiException\<close>
  with the message \<open>Failed to buy item. Steam message: \<close> followed by the text of: the
  top-level \<open>message\<close> entry when that entry is truthy; otherwise the \<open>message\<close> entry of
  \<open>wallet_info\<close> when \<open>wallet_info\<close> is truthy (\<open>None\<close> when it has no such entry);
  otherwise the top-level entry as it is (\<open>None\<close> when absent).  So the fallback is taken
  when the top-level message is absent, null or empty, not only when it is absent.
\<close>

theorem failure_message_fallback:
  assumes "was_login_executed self"
    and "map_of (cookies_get_dict (session self) tr ''steamcommunity.com'') ''sessionid'' = Some sid"
    and "http_post (session self) tr (buy_url D mid) (buy_data sid cur price fee)
           (buy_headers D game name) = Inr resp"
    and "json_body resp = Inr (JObj kvs)"
    and "wallet_success (JObj kvs) \<noteq> Inr True"
    and "needs_confirmation (JObj kvs) \<noteq> Inr True"
    and "tmsg = (case map_of kvs ''message'' of None \<Rightarrow> JNull | Some v \<Rightarrow> v)"
    and "w = (case map_of kvs ''wallet_info'' of None \<Rightarrow> JNull | Some v \<Rightarrow> v)"
    and "s = (case map_of kvs ''success'' of None \<Rightarrow> JNull | Some v \<Rightarrow> v)"
    and "c = (case map_of kvs ''confirmation'' of None \<Rightarrow> JObj [] | Some v \<Rightarrow> v)"
  shows "\<exists>err. buy_item D self name mid price fee game cur tr =
             (Inl err,
              tr @ [HttpPost (buy_url D mid) (buy_data sid cur price fee) (buy_headers D game name)])
         \<and> (truthy w \<and> (\<forall>wkvs. w \<noteq> JObj wkvs) \<longrightarrow>
              py_get w ''success'' JNull = Inl err \<and> (\<exists>t. err = AttributeError t))
         \<and> ((\<not> truthy w \<or> (\<exists>wkvs. w = JObj wkvs)) \<and> py_eq_int s 22 \<and> (\<forall>ckvs. c \<noteq> JObj ckvs) \<longrightarrow>
              py_get c ''confirmation_id'' JNull = Inl err \<and> (\<exists>t. err = AttributeError t))
         \<and> ((\<not> truthy w \<or> (\<exists>wkvs. w = JObj wkvs)) \<and> (\<not> py_eq_int s 22 \<or> (\<exists>ckvs. c = JObj ckvs)) \<longrightarrow>
              (\<exists>msg. err = ApiException (''Failed to buy item. Steam message: '' @ py_str D msg)
                 \<and> (truthy tmsg \<longrightarrow> msg = tmsg)
                 \<and> (\<not> truthy tmsg \<and> \<not> truthy w \<longrightarrow> msg = tmsg)
                 \<and> (\<not> truthy tmsg \<and> truthy w \<longrightarrow>
                      (\<exists>wkvs. w = JObj wkvs
                         \<and> msg = (case map_of wkvs ''message'' of None \<Rightarrow> JNull | Some v \<Rightarrow> v)))))"
proof -
  let ?P0 = "HttpPost (buy_url D mid) (buy_data sid cur price fee) (buy_headers D game name)"
  note first = buy_item_first_response [OF assms(1-4)]
  have ws: "wallet_success (JObj kvs) =
      (if truthy w then sum_bind (py_get w ''success'' JNull) (\<lambda>s. Inr (py_eq_int s 1)) else Inr False)"
    using assms(8) by (simp add: wallet_success_def split: option.splits)
  have nc: "needs_confirmation (JObj kvs) =
      (if py_eq_int s 22 then sum_bind (py_get c ''confirmation_id'' JNull) (\<lambda>i. Inr (truthy i))
       else Inr False)"
    using assms(9,10) by (simp add: needs_confirmation_def split: option.splits)
  consider (A) "truthy w" "\<forall>wkvs. w \<noteq> JObj wkvs"
    | (B) "\<not> truthy w \<or> (\<exists>wkvs. w = JObj wkvs)" "py_eq_int s 22" "\<forall>ckvs. c \<noteq> JObj ckvs"
    | (C) "\<not> truthy w \<or> (\<exists>wkvs. w = JObj wkvs)" "\<not> py_eq_int s 22 \<or> (\<exists>ckvs. c = JObj ckvs)"
    by blast
  then show ?thesis
  proof cases
    case A
    then obtain t where t: "py_get w ''success'' JNull = Inl (AttributeError t)"
      by (cases w) auto
    with A ws have "wallet_success (JObj kvs) = Inl (AttributeError t)" by simp
    then have "buy_item D self name mid price fee game cur tr = (Inl (AttributeError t), tr @ [?P0])"
      by (simp add: first)
    with A t show ?thesis by auto
  next
    case B
    from B(1) assms(5) ws have wf: "wallet_success (JObj kvs) = Inr False"
      by (cases w) (auto split: if_splits)
    from B(3) obtain t where t: "py_get c ''confirmation_id'' JNull = Inl (AttributeError t)"
      by (cases c) auto
    with B(2) nc have "needs_confirmation (JObj kvs) = Inl (AttributeError t)" by simp
    with wf have "buy_item D self name mid price fee game cur tr = (Inl (AttributeError t), tr @ [?P0])"
      by (simp add: first)
    with B t show ?thesis by auto
  next
    case C
    from C(1) assms(5) ws have wf: "wallet_success (JObj kvs) = Inr False"
      by (cases w) (auto split: if_splits)
    from C(2) assms(6) nc have nf: "needs_confirmation (JObj kvs) = Inr False"
      by (cases c) (auto split: if_splits)
    have wdict: "truthy w \<Longrightarrow> \<exists>wkvs. w = JObj wkvs" using C(1) by blast
    show ?thesis
    proof (cases "\<not> truthy tmsg \<and> truthy w")
      case True
      then obtain wkvs where wk: "w = JObj wkvs" using wdict by blast
      with True assms(7,8) have
        "failure_message (JObj kvs) = Inr (case map_of wkvs ''message'' of None \<Rightarrow> JNull | Some v \<Rightarrow> v)"
        by (auto simp: failure_message_def split: option.splits)
      with wf nf have "buy_item D self name mid price fee game cur tr =
          (Inl (ApiException (''Failed to buy item. Steam message: ''
             @ py_str D (case map_of wkvs ''message'' of None \<Rightarrow> JNull | Some v \<Rightarrow> v))), tr @ [?P0])"
        by (simp add: first)
      with True wk C show ?thesis by auto
    next
      case False
      with assms(7,8) have "failure_message (JObj kvs) = Inr tmsg"
        by (auto simp: failure_message_def split: option.splits)
      with wf nf have "buy_item D self name mid price fee game cur tr =
          (Inl (ApiException (''Failed to buy item. Steam message: '' @ py_str D tmsg)), tr @ [?P0])"
        by (simp add: first)
      with False C show ?thesis by auto
    qed
  qed
qed

theorem failure_message_fallback_witness:
  "wallet_success (JObj [(''success'', JInt 16), (''message'', JStr ''Listing was sold'')]) \<noteq> Inr True
   \<and> needs_confirmation (JObj [(''success'', JInt 16), (''message'', JStr ''Listing was sold'')])
      \<noteq> Inr True
   \<and> buy_item deps0
        (logged_in (scripted []
           [json_response (JObj [(''success'', JInt 16), (''message'', JStr ''Listing was sold'')])]
           ([] :: nat list)))
        ''AK'' ''99'' 100 13 game0 usd []
      = (Inl (ApiException ''Failed to buy item. Steam message: Listing was sold''),
         [HttpPost (buy_url deps0 ''99'') (buy_data ''5e55'' usd 100 13) (buy_headers deps0 game0 ''AK'')])
   \<and> wallet_success (JObj [(''success'', JInt 22), (''confirmation'', JNull),
        (''message'', JStr ''busy'')]) \<noteq> Inr True
   \<and> needs_confirmation (JObj [(''success'', JInt 22), (''confirmation'', JNull),
        (''message'', JStr ''busy'')]) \<noteq> Inr True
   \<and> buy_item deps0
        (logged_in (scripted []
           [json_response (JObj [(''success'', JInt 22), (''confirmation'', JNull),
              (''message'', JStr ''busy'')])]
           ([] :: nat list)))
        ''AK'' ''99'' 100 13 game0 usd []
      = (Inl (AttributeError ([CHR 0x27] @ ''NoneType'' @ [CHR 0x27] @ '' object has no attribute ''
                @ [CHR 0x27] @ ''get'' @ [CHR 0x27])),
         [HttpPost (buy_url deps0 ''99'') (buy_data ''5e55'' usd 100 13) (buy_headers deps0 game0 ''AK'')])"
proof -
  let ?P0 = "HttpPost (buy_url deps0 ''99'') (buy_data ''5e55'' usd 100 13) (buy_headers deps0 game0 ''AK'')"
  let ?kvs = "[(''success'', JInt 16), (''message'', JStr ''Listing was sold'')]"
  let ?M = "logged_in (scripted [] [json_response (JObj ?kvs)] ([] :: nat list))"
  have h1: "was_login_executed ?M" by (simp add: env_defs)
  have h2: "map_of (cookies_get_dict (session ?M) [] ''steamcommunity.com'') ''sessionid'' = Some ''5e55''"
    by (simp add: env_defs)
  have h3: "http_post (session ?M) [] (buy_url deps0 ''99'') (buy_data ''5e55'' usd 100 13)
              (buy_headers deps0 game0 ''AK'') = Inr (json_response (JObj ?kvs))"
    by (simp add: env_defs)
  have h4: "json_body (json_response (JObj ?kvs)) = Inr (JObj ?kvs)" by (simp add: env_defs)
  have h5: "wallet_success (JObj ?kvs) \<noteq> Inr True" by (simp add: wallet_success_def)
  have h6: "needs_confirmation (JObj ?kvs) \<noteq> Inr True" by (simp add: needs_confirmation_def)
  have h7: "JStr ''Listing was sold'' = (case map_of ?kvs ''message'' of None \<Rightarrow> JNull | Some v \<Rightarrow> v)"
    by simp
  have h8: "JNull = (case map_of ?kvs ''wallet_info'' of None \<Rightarrow> JNull | Some v \<Rightarrow> v)"
    by simp
  have h9: "JInt 16 = (case map_of ?kvs ''success'' of None \<Rightarrow> JNull | Some v \<Rightarrow> v)"
    by simp
  have h10: "JObj [] = (case map_of ?kvs ''confirmation'' of None \<Rightarrow> JObj [] | Some v \<Rightarrow> v)"
    by simp
  from failure_message_fallback [OF h1 h2 h3 h4 h5 h6 h7 h8 h9 h10]
  have run1: "buy_item deps0 ?M ''AK'' ''99'' 100 13 game0 usd []
      = (Inl (ApiException ''Failed to buy item. Steam message: Listing was sold''), [?P0])"
    by auto
  let ?kvs' = "[(''success'', JInt 22), (''confirmation'', JNull), (''message'', JStr ''busy'')]"
  let ?M' = "logged_in (scripted [] [json_response (JObj ?kvs')] ([] :: nat list))"
  have k1: "was_login_executed ?M'" by (simp add: env_defs)
  have k2: "map_of (cookies_get_dict (session ?M') [] ''steamcommunity.com'') ''sessionid'' = Some ''5e55''"
    by (simp add: env_defs)
  have k3: "http_post (session ?M') [] (buy_url deps0 ''99'') (buy_data ''5e55'' usd 100 13)
              (buy_headers deps0 game0 ''AK'') = Inr (json_response (JObj ?kvs'))"
    by (simp add: env_defs)
  have k4: "json_body (json_response (JObj ?kvs')) = Inr (JObj ?kvs')" by (simp add: env_defs)
  have k5: "wallet_success (JObj ?kvs') \<noteq> Inr True" by (simp add: wallet_success_def)
  have k6: "needs_confirmation (JObj ?kvs') \<noteq> Inr True" by (simp add: needs_confirmation_def)
  have k7: "JStr ''busy'' = (case map_of ?kvs' ''message'' of None \<Rightarrow> JNull | Some v \<Rightarrow> v)"
    by simp
  have k8: "JNull = (case map_of ?kvs' ''wallet_info'' of None \<Rightarrow> JNull | Some v \<Rightarrow> v)"
    by simp
  have k9: "JInt 22 = (case map_of ?kvs' ''success'' of None \<Rightarrow> JNull | Some v \<Rightarrow> v)"
    by simp
  have k10: "JNull = (case map_of ?kvs' ''confirmation'' of None \<Rightarrow> JObj [] | Some v \<Rightarrow> v)"
    by simp
  from failure_message_fallback [OF k1 k2 k3 k4 k5 k6 k7 k8 k9 k10]
  have run2: "buy_item deps0 ?M' ''AK'' ''99'' 100 13 game0 usd []
      = (Inl (AttributeError ([CHR 0x27] @ ''NoneType'' @ [CHR 0x27] @ '' object has no attribute ''
                @ [CHR 0x27] @ ''get'' @ [CHR 0x27])), [?P0])"
    by auto
  from h5 h6 run1 k5 k6 run2 show ?thesis by simp
qed

section \<open>Purchases: errors of the confirmation step\<close>

text \<open>
  Claim C4, as stated, has invalid confirmation data fail with an error \<open>ConfirmationError\<close>
  that is distinct from \<open>ApiError\<close>.  The module has no such class.  In the confirmation
  step, a confirmation service that fails with \<open>KeyError\<close> (a field is missing from the
  confirmation data) makes \<open>buy_item\<close> raise \<open>ApiException\<close>, the class it raises for a
  transport failure too.
\<close>

theorem invalid_data_is_api_error_counterexample:
  "wallet_success (JObj [(''success'', JInt 22),
       (''confirmation'', JObj [(''confirmation_id'', JStr ''123'')])]) = Inr False
   \<and> needs_confirmation (JObj [(''success'', JInt 22),
       (''confirmation'', JObj [(''confirmation_id'', JStr ''123'')])]) = Inr True
   \<and> buy_item deps0
        (logged_in (failing_service
           [json_response (JObj [(''success'', JInt 22),
              (''confirmation'', JObj [(''confirmation_id'', JStr ''123'')])])]
           (KeyError ''conf'') :: nat session))
        ''AK'' ''99'' 100 13 game0 usd []
      = (Inl (ApiException ''Steam requested confirmation, but returned invalid data (confirmation_id).''),
         [HttpPost (buy_url deps0 ''99'') (buy_data ''5e55'' usd 100 13) (buy_headers deps0 game0 ''AK''),
          GetConfirmations (JStr ''c2VjcmV0'') (JStr ''7656'')])
   \<and> spec_error_of
        (ApiException ''Steam requested confirmation, but returned invalid data (confirmation_id).'')
      = Some SApiError
   \<and> spec_error_of
        (ApiException ''Steam requested confirmation, but returned invalid data (confirmation_id).'')
      \<noteq> Some SConfirmationError"
proof -
  let ?R1 = "JObj [(''success'', JInt 22), (''confirmation'', JObj [(''confirmation_id'', JStr ''123'')])]"
  let ?M = "logged_in (failing_service [json_response ?R1] (KeyError ''conf'') :: nat session)"
  let ?P0 = "HttpPost (buy_url deps0 ''99'') (buy_data ''5e55'' usd 100 13) (buy_headers deps0 game0 ''AK'')"
  have w: "wallet_success ?R1 = Inr False" by (simp add: wallet_success_def)
  have n: "needs_confirmation ?R1 = Inr True" by (simp add: needs_confirmation_def)
  have conf: "buy_item_confirm ?M ?R1 (buy_url deps0 ''99'') (buy_data ''5e55'' usd 100 13)
                (buy_headers deps0 game0 ''AK'') ([] @ [?P0])
              = (Inl (KeyError ''conf''), [?P0, GetConfirmations (JStr ''c2VjcmV0'') (JStr ''7656'')])"
    by (simp add: buy_item_confirm_def confirm_buy_listing_def get_confirmations_def io_bind_def
        session_defs Let_def)
  have "buy_item deps0 ?M ''AK'' ''99'' 100 13 game0 usd []
      = (Inl (ApiException ''Steam requested confirmation, but returned invalid data (confirmation_id).''),
         [?P0, GetConfirmations (JStr ''c2VjcmV0'') (JStr ''7656'')])"
  proof -
    have h1: "was_login_executed ?M" by (simp add: session_defs)
    have h2: "map_of (cookies_get_dict (session ?M) [] ''steamcommunity.com'') ''sessionid''
                = Some ''5e55''" by (simp add: session_defs)
    have h3: "http_post (session ?M) [] (buy_url deps0 ''99'') (buy_data ''5e55'' usd 100 13)
                (buy_headers deps0 game0 ''AK'') = Inr (json_response ?R1)"
      by (simp add: session_defs)
    have h4: "json_body (json_response ?R1) = Inr ?R1" by (simp add: session_defs)
    show ?thesis
      using conf by (simp add: buy_item_first_response [OF h1 h2 h3 h4] w n io_catch_def
          buy_item_handler_def)
  qed
  with w n show ?thesis by simp
qed

text \<open>
  Claim C4, amended.  Once \<open>buy_item\<close> has entered its confirmation step (the wallet test
  came out false, \<open>success\<close> is 22 and the confirmation id is truthy), every exception
  raised in the step, be it by the lookups in the guard record, the fetch of the pending
  confirmations, an acceptance, the second request or the decoding of its body, is
  reported as \<open>ApiException\<close>, with one of two messages: the fixed message about invalid
  confirmation data when the exception is a \<open>KeyError\<close> or a \<open>TypeError\<close>, wherever in the
  step it was raised, and the message about the second confirmation step, ending in the
  text of the exception, when it is any other exception.  The two messages differ, and
  nothing is sent or attempted after the failure.
\<close>

theorem confirmation_step_errors:
  assumes "was_login_executed self"
    and "map_of (cookies_get_dict (session self) tr ''steamcommunity.com'') ''sessionid'' = Some sid"
    and "http_post (session self) tr (buy_url D mid) (buy_data sid cur price fee)
           (buy_headers D game name) = Inr resp"
    and "json_body resp = Inr response"
    and "wallet_success response = Inr False"
    and "needs_confirmation response = Inr True"
    and "P0 = HttpPost (buy_url D mid) (buy_data sid cur price fee) (buy_headers D game name)"
    and "fst (buy_item_confirm self response (buy_url D mid) (buy_data sid cur price fee)
           (buy_headers D game name) (tr @ [P0])) = Inl e"
  shows "fst (buy_item D self name mid price fee game cur tr) =
           Inl (ApiException
             (if (\<exists>k. e = KeyError k) \<or> (\<exists>m. e = TypeError m)
              then ''Steam requested confirmation, but returned invalid data (confirmation_id).''
              else ''An error occurred during the second confirmation step: '' @ exn_str e))
         \<and> snd (buy_item D self name mid price fee game cur tr) =
             snd (buy_item_confirm self response (buy_url D mid) (buy_data sid cur price fee)
                    (buy_headers D game name) (tr @ [P0]))
         \<and> ''Steam requested confirmation, but returned invalid data (confirmation_id).''
             \<noteq> ''An error occurred during the second confirmation step: '' @ exn_str e
         \<and> spec_error_of (ApiException
             (if (\<exists>k. e = KeyError k) \<or> (\<exists>m. e = TypeError m)
              then ''Steam requested confirmation, but returned invalid data (confirmation_id).''
              else ''An error occurred during the second confirmation step: '' @ exn_str e))
             = Some SApiError"
proof -
  let ?body = "buy_item_confirm self response (buy_url D mid) (buy_data sid cur price fee)
                 (buy_headers D game name) (tr @ [P0])"
  from assms(8) obtain tr' where body: "?body = (Inl e, tr')"
    by (metis prod.collapse)
  then have "buy_item D self name mid price fee game cur tr = buy_item_handler e tr'"
    using assms(5,6)
    by (simp add: buy_item_first_response [OF assms(1-4), folded assms(7)] io_catch_def)
  with body show ?thesis
    by (cases e) (simp_all add: buy_item_handler_def)
qed

theorem confirmation_step_errors_witness:
  "wallet_success (JObj [(''success'', JInt 22),
       (''confirmation'', JObj [(''confirmation_id'', JStr ''123'')])]) = Inr False
   \<and> needs_confirmation (JObj [(''success'', JInt 22),
       (''confirmation'', JObj [(''confirmation_id'', JStr ''123'')])]) = Inr True
   \<and> fst (buy_item deps0
        (logged_in (failing_service
           [json_response (JObj [(''success'', JInt 22),
              (''confirmation'', JObj [(''confirmation_id'', JStr ''123'')])])]
           (OtherException ''ConnectionError'') :: nat session))
        ''AK'' ''99'' 100 13 game0 usd [])
      = Inl (ApiException ''An error occurred during the second confirmation step: ConnectionError'')
   \<and> fst (buy_item deps0
        (logged_in_without_secret (scripted []
           [json_response (JObj [(''success'', JInt 22),
              (''confirmation'', JObj [(''confirmation_id'', JStr ''123'')])])]
           [1 :: nat, 2]))
        ''AK'' ''99'' 100 13 game0 usd [])
      = Inl (ApiException ''Steam requested confirmation, but returned invalid data (confirmation_id).'')
   \<and> fst (buy_item deps0
        (logged_in (failing_accept
           [json_response (JObj [(''success'', JInt 22),
              (''confirmation'', JObj [(''confirmation_id'', JStr ''123'')])])]
           [1 :: nat, 2] (TypeError ''unhashable type'')))
        ''AK'' ''99'' 100 13 game0 usd [])
      = Inl (ApiException ''Steam requested confirmation, but returned invalid data (confirmation_id).'')
   \<and> fst (buy_item deps0
        (logged_in (scripted []
           [json_response (JObj [(''success'', JInt 22),
              (''confirmation'', JObj [(''confirmation_id'', JStr ''123'')])])]
           [1 :: nat, 2]))
        ''AK'' ''99'' 100 13 game0 usd [])
      = Inl (ApiException ''An error occurred during the second confirmation step: ConnectionError'')
   \<and> fst (buy_item deps0
        (logged_in (scripted []
           [json_response (JObj [(''success'', JInt 22),
              (''confirmation'', JObj [(''confirmation_id'', JStr ''123'')])]),
            undecodable]
           [1 :: nat, 2]))
        ''AK'' ''99'' 100 13 game0 usd [])
      = Inl (ApiException (''An error occurred during the second confirmation step: ''
               @ ''Expecting value: line 1 column 1 (char 0)''))"
proof -
  let ?R1 = "JObj [(''success'', JInt 22), (''confirmation'', JObj [(''confirmation_id'', JStr ''123'')])]"
  let ?P0 = "HttpPost (buy_url deps0 ''99'') (buy_data ''5e55'' usd 100 13) (buy_headers deps0 game0 ''AK'')"
  let ?body = "\<lambda>M :: nat market. buy_item_confirm M ?R1 (buy_url deps0 ''99'')
      (buy_data ''5e55'' usd 100 13) (buy_headers deps0 game0 ''AK'') ([] @ [?P0])"
  have w: "wallet_success ?R1 = Inr False" by (simp add: wallet_success_def)
  have n: "needs_confirmation ?R1 = Inr True" by (simp add: needs_confirmation_def)
  have h4: "json_body (json_response ?R1) = Inr ?R1" by (simp add: session_defs)
  have run: "fst (buy_item deps0 M ''AK'' ''99'' 100 13 game0 usd []) =
      Inl (ApiException
        (if (\<exists>k. e = KeyError k) \<or> (\<exists>m. e = TypeError m)
         then ''Steam requested confirmation, but returned invalid data (confirmation_id).''
         else ''An error occurred during the second confirmation step: '' @ exn_str e))"
    if "was_login_executed M"
      and "map_of (cookies_get_dict (session M) [] ''steamcommunity.com'') ''sessionid'' = Some ''5e55''"
      and "http_post (session M) [] (buy_url deps0 ''99'') (buy_data ''5e55'' usd 100 13)
             (buy_headers deps0 game0 ''AK'') = Inr (json_response ?R1)"
      and "fst (?body M) = Inl e"
    for M :: "nat market" and e
    using confirmation_step_errors [OF that(1-3) h4 w n refl that(4)] by simp
  let ?Ma = "logged_in (failing_service [json_response ?R1] (OtherException ''ConnectionError'')
                :: nat session)"
  let ?Mb = "logged_in_without_secret (scripted [] [json_response ?R1] [1 :: nat, 2])"
  let ?Mc = "logged_in (failing_accept [json_response ?R1] [1 :: nat, 2] (TypeError ''unhashable type''))"
  let ?Md = "logged_in (scripted [] [json_response ?R1] [1 :: nat, 2])"
  let ?Me = "logged_in (scripted [] [json_response ?R1, undecodable] [1 :: nat, 2])"
  have a: "fst (?body ?Ma) = Inl (OtherException ''ConnectionError'')"
    by (simp add: buy_item_confirm_def confirm_buy_listing_def get_confirmations_def io_bind_def
        session_defs Let_def)
  have b: "fst (?body ?Mb) = Inl (KeyError ''identity_secret'')"
    by (simp add: buy_item_confirm_def confirm_buy_listing_def session_defs Let_def)
  have c: "fst (?body ?Mc) = Inl (TypeError ''unhashable type'')"
    by (simp add: buy_item_confirm_def confirm_buy_listing_def get_confirmations_def
        send_confirmation_def io_bind_def session_defs Let_def)
  have d: "fst (?body ?Md) = Inl (OtherException ''ConnectionError'')"
    by (simp add: buy_item_confirm_def confirm_buy_listing_def get_confirmations_def
        send_confirmation_def sleep_def session_post_def io_bind_def session_defs Let_def)
  have e: "fst (?body ?Me) = Inl (OtherException ''Expecting value: line 1 column 1 (char 0)'')"
    by (simp add: buy_item_confirm_def confirm_buy_listing_def get_confirmations_def
        send_confirmation_def sleep_def session_post_def io_bind_def session_defs Let_def)
  have ra: "fst (buy_item deps0 ?Ma ''AK'' ''99'' 100 13 game0 usd [])
      = Inl (ApiException ''An error occurred during the second confirmation step: ConnectionError'')"
    using run [OF _ _ _ a] by (simp add: session_defs)
  have rb: "fst (buy_item deps0 ?Mb ''AK'' ''99'' 100 13 game0 usd [])
      = Inl (ApiException ''Steam requested confirmation, but returned invalid data (confirmation_id).'')"
    using run [OF _ _ _ b] by (simp add: session_defs)
  have rc: "fst (buy_item deps0 ?Mc ''AK'' ''99'' 100 13 game0 usd [])
      = Inl (ApiException ''Steam requested confirmation, but returned invalid data (confirmation_id).'')"
    using run [OF _ _ _ c] by (simp add: session_defs)
  have rd: "fst (buy_item deps0 ?Md ''AK'' ''99'' 100 13 game0 usd [])
      = Inl (ApiException ''An error occurred during the second confirmation step: ConnectionError'')"
    using run [OF _ _ _ d] by (simp add: session_defs)
  have re: "fst (buy_item deps0 ?Me ''AK'' ''99'' 100 13 game0 usd [])
      = Inl (ApiException (''An error occurred during the second confirmation step: ''
               @ ''Expecting value: line 1 column 1 (char 0)''))"
    using run [OF _ _ _ e] by (simp add: session_defs)
  from w n ra rb rc rd re show ?thesis by simp
qed

section \<open>The fetch plan of the listings\<close>

lemma io_bind_lift_apply:
  "io_bind (io_lift r) f tr = (case r of Inl e \<Rightarrow> (Inl e, tr) | Inr x \<Rightarrow> f x tr)"
  by (cases r) simp_all

lemma fetch_page_listings_trace:
  "snd (fetch_page_listings D S url tr) = tr @ [HttpGet url]"
  by (simp add: fetch_page_listings_def io_bind_get io_bind_response_json io_bind_lift_apply
      split: sum.splits)

lemma fetch_listings_page_ok:
  assumes "fst (fetch_page_listings D S url tr) = Inr p"
  shows "fetch_listings_page D S url listings tr = (merge_sell_listings listings p, tr @ [HttpGet url])"
proof -
  from assms fetch_page_listings_trace [of D S url tr]
  have "fetch_page_listings D S url tr = (Inr p, tr @ [HttpGet url])"
    by (metis prod.collapse)
  then show ?thesis
    by (simp add: fetch_listings_page_def io_bind_Inr [of "fetch_page_listings D S url" tr])
qed

lemma merge_has_sell_listings:
  assumes "has_sell_listings l" and "has_sell_listings p"
  shows "\<exists>r. merge_sell_listings l p = Inr r \<and> has_sell_listings r"
proof -
  from assms(1) obtain lk a where l: "l = JObj lk" "map_of lk ''sell_listings'' = Some (JObj a)"
    by (cases l) (auto split: option.splits json.splits)
  from assms(2) obtain pk b where p: "p = JObj pk" "map_of pk ''sell_listings'' = Some (JObj b)"
    by (cases p) (auto split: option.splits json.splits)
  from l p show ?thesis
    by (simp add: merge_sell_listings_def update_conv')
qed

lemma fetch_pages_run:
  assumes ok: "\<forall>tr url. \<exists>p. fst (fetch_page_listings D S url tr) = Inr p \<and> has_sell_listings p"
  shows "has_sell_listings l \<Longrightarrow>
    \<exists>ps r. length ps = length offs
      \<and> (\<forall>i<length offs.
            fst (fetch_page_listings D S (page_url D (n + offs ! i))
                  (tr @ map (\<lambda>j. HttpGet (page_url D (n + j))) (take i offs))) = Inr (ps ! i))
      \<and> overlay_pages l ps = Inr r \<and> has_sell_listings r
      \<and> fetch_pages D S n offs l tr = (Inr r, tr @ map (\<lambda>j. HttpGet (page_url D (n + j))) offs)"
proof (induction offs arbitrary: l tr)
  case Nil
  then show ?case by simp
next
  case (Cons a offs)
  let ?u = "page_url D (n + a)"
  from ok obtain p where p: "fst (fetch_page_listings D S ?u tr) = Inr p" and hp: "has_sell_listings p"
    by blast
  from merge_has_sell_listings [OF Cons.prems hp]
  obtain l' where l': "merge_sell_listings l p = Inr l'" and hl': "has_sell_listings l'" by blast
  from Cons.IH [OF hl', of "tr @ [HttpGet ?u]"]
  obtain ps r where len: "length ps = length offs"
    and pages: "\<forall>i<length offs.
            fst (fetch_page_listings D S (page_url D (n + offs ! i))
                  ((tr @ [HttpGet ?u]) @ map (\<lambda>j. HttpGet (page_url D (n + j))) (take i offs)))
              = Inr (ps ! i)"
    and ov: "overlay_pages l' ps = Inr r" and hr: "has_sell_listings r"
    and run: "fetch_pages D S n offs l' (tr @ [HttpGet ?u])
                = (Inr r, (tr @ [HttpGet ?u]) @ map (\<lambda>j. HttpGet (page_url D (n + j))) offs)"
    by blast
  have "length (p # ps) = length (a # offs)" using len by simp
  moreover have "\<forall>i<length (a # offs).
            fst (fetch_page_listings D S (page_url D (n + (a # offs) ! i))
                  (tr @ map (\<lambda>j. HttpGet (page_url D (n + j))) (take i (a # offs))))
              = Inr ((p # ps) ! i)"
  proof (intro allI impI)
    fix i assume i: "i < length (a # offs)"
    show "fst (fetch_page_listings D S (page_url D (n + (a # offs) ! i))
                  (tr @ map (\<lambda>j. HttpGet (page_url D (n + j))) (take i (a # offs))))
              = Inr ((p # ps) ! i)"
    proof (cases i)
      case 0
      with p show ?thesis by simp
    next
      case (Suc k)
      with i pages [rule_format, of k] show ?thesis by simp
    qed
  qed
  moreover have "overlay_pages l (p # ps) = Inr r" using l' ov by simp
  moreover have "fetch_pages D S n (a # offs) l tr
      = (Inr r, tr @ map (\<lambda>j. HttpGet (page_url D (n + j))) (a # offs))"
    using fetch_listings_page_ok [OF p, of l] l' run by simp
  ultimately show ?case using hr by blast
qed

lemma py_range0_100: "py_range0 n 100 = map (\<lambda>k. 100 * int k) [0 ..< nat ((n + 99) div 100)]"
  by (simp add: py_range0_def algebra_simps)

text \<open>
  Claim C2, as stated, has the sequential requests advance from \<open>n_showing\<close> until the
  offset reaches \<open>n_total\<close>.  With 500 listings shown of 1000 the module issues ten requests,
  at the offsets 500 to 1400, where the wording of the claim gives the five offsets 500 to
  900.
\<close>

theorem pages_beyond_total_counterexample:
  "snd (paginate deps0 (always page0 :: nat session) 500 1000 listings0 []) =
     map HttpGet
       [page_url deps0 500, page_url deps0 600, page_url deps0 700, page_url deps0 800,
        page_url deps0 900, page_url deps0 1000, page_url deps0 1100, page_url deps0 1200,
        page_url deps0 1300, page_url deps0 1400]
   \<and> spec_offsets 500 1000 = [500, 600, 700, 800, 900]"
proof -
  let ?S = "always page0 :: nat session"
  let ?P = "JObj [(''sell_listings'', JObj [(''L1'', JInt 1)])]"
  let ?L = "JObj [(''buy_orders'', JObj []), (''sell_listings'', JObj [(''L0'', JInt 0), (''L1'', JInt 1)])]"
  have fp: "fst (fetch_page_listings deps0 ?S url tr) = Inr ?P" for url tr
    by (simp add: fetch_page_listings_def io_bind_get io_bind_response_json env_defs)
  have page: "fetch_listings_page deps0 ?S url ?L tr = (Inr ?L, tr @ [HttpGet url])" for url tr
    by (simp add: fetch_listings_page_ok [OF fp] merge_sell_listings_def dict_overlay_def)
  have first: "fetch_listings_page deps0 ?S url listings0 tr = (Inr ?L, tr @ [HttpGet url])" for url tr
    by (simp add: fetch_listings_page_ok [OF fp] merge_sell_listings_def dict_overlay_def listings0_def)
  have "spec_offsets 500 1000 = [500, 600, 700, 800, 900]"
    by (simp add: spec_offsets_def upt_rec)
  moreover have "py_range0 1000 100 = [0, 100, 200, 300, 400, 500, 600, 700, 800, 900]"
    by (simp add: py_range0_def upt_rec)
  then have "snd (paginate deps0 (always page0 :: nat session) 500 1000 listings0 []) =
     map HttpGet
       [page_url deps0 500, page_url deps0 600, page_url deps0 700, page_url deps0 800,
        page_url deps0 900, page_url deps0 1000, page_url deps0 1100, page_url deps0 1200,
        page_url deps0 1300, page_url deps0 1400]"
    by (simp add: paginate_def first page)
  ultimately show ?thesis by simp
qed

text \<open>
  Claim C2, amended.  When the landing page exposes the markers, and every request for
  further listings is answered with status OK and a page that the helpers turn into a
  collection with sell listings: if \<open>n_showing < n_total < 1000\<close> the planner issues exactly
  one bulk request (count -1, that is, all) starting at offset \<open>n_showing\<close>; otherwise it
  issues \<open>ceil(n_total / 100)\<close> sequential requests of page size 100 (none when \<open>n_total\<close> is
  not positive), at the offsets \<open>n_showing + 100 k\<close> for \<open>k = 0, 1, ...\<close> as long as
  \<open>100 k < n_total\<close>: it is the loop counter, not the offset, that runs up to \<open>n_total\<close>.  The
  pages are merged into the collection one after the other in the order of the requests.
\<close>

theorem fetch_plan:
  assumes "has_sell_listings listings"
    and "\<forall>tr url. \<exists>p. fst (fetch_page_listings D S url tr) = Inr p \<and> has_sell_listings p"
    and "plan = (if n_showing < n_total \<and> n_total < 1000 then [bulk_url D n_showing]
                 else map (\<lambda>k. page_url D (n_showing + 100 * int k))
                        [0 ..< nat ((n_total + 99) div 100)])"
  shows "\<exists>ps r. length ps = length plan
           \<and> (\<forall>i<length plan.
                 fst (fetch_page_listings D S (plan ! i) (tr @ map HttpGet (take i plan))) = Inr (ps ! i))
           \<and> overlay_pages listings ps = Inr r
           \<and> paginate D S n_showing n_total listings tr = (Inr r, tr @ map HttpGet plan)"
proof (cases "n_showing < n_total \<and> n_total < 1000")
  case True
  then have plan: "plan = [bulk_url D n_showing]" using assms(3) by simp
  from assms(2) obtain p where p: "fst (fetch_page_listings D S (bulk_url D n_showing) tr) = Inr p"
    and hp: "has_sell_listings p" by blast
  from merge_has_sell_listings [OF assms(1) hp]
  obtain r where r: "merge_sell_listings listings p = Inr r" by blast
  have "length [p] = length plan" using plan by simp
  moreover have "\<forall>i<length plan.
      fst (fetch_page_listings D S (plan ! i) (tr @ map HttpGet (take i plan))) = Inr ([p] ! i)"
    using plan p by simp
  moreover have "overlay_pages listings [p] = Inr r" using r by simp
  moreover have "paginate D S n_showing n_total listings tr = (Inr r, tr @ map HttpGet plan)"
    using True plan r fetch_listings_page_ok [OF p, of listings] by (simp add: paginate_def)
  ultimately show ?thesis by blast
next
  case False
  let ?offs = "py_range0 n_total 100"
  have plan: "plan = map (\<lambda>j. page_url D (n_showing + j)) ?offs"
    using False assms(3) by (auto simp: py_range0_100 comp_def)
  from fetch_pages_run [OF assms(2) assms(1), of ?offs n_showing tr]
  obtain ps r where len: "length ps = length ?offs"
    and pages: "\<forall>i<length ?offs.
            fst (fetch_page_listings D S (page_url D (n_showing + ?offs ! i))
                  (tr @ map (\<lambda>j. HttpGet (page_url D (n_showing + j))) (take i ?offs))) = Inr (ps ! i)"
    and ov: "overlay_pages listings ps = Inr r"
    and run: "fetch_pages D S n_showing ?offs listings tr
                = (Inr r, tr @ map (\<lambda>j. HttpGet (page_url D (n_showing + j))) ?offs)"
    by blast
  have "length ps = length plan" using len plan by simp
  moreover have "\<forall>i<length plan.
      fst (fetch_page_listings D S (plan ! i) (tr @ map HttpGet (take i plan))) = Inr (ps ! i)"
    using pages plan by (simp add: take_map comp_def)
  moreover have "paginate D S n_showing n_total listings tr = (Inr r, tr @ map HttpGet plan)"
    using False run plan by (auto simp: paginate_def comp_def)
  ultimately show ?thesis using ov by blast
qed

theorem fetch_plan_witness:
  "has_sell_listings listings0
   \<and> (\<forall>tr url. \<exists>p. fst (fetch_page_listings deps0 (always page0 :: nat session) url tr) = Inr p
                    \<and> has_sell_listings p)
   \<and> (\<exists>r. paginate deps0 (always page0 :: nat session) 0 1500 listings0 [] =
        (Inr r, map HttpGet
           [page_url deps0 0, page_url deps0 100, page_url deps0 200, page_url deps0 300,
            page_url deps0 400, page_url deps0 500, page_url deps0 600, page_url deps0 700,
            page_url deps0 800, page_url deps0 900, page_url deps0 1000, page_url deps0 1100,
            page_url deps0 1200, page_url deps0 1300, page_url deps0 1400]))
   \<and> (\<exists>r. paginate deps0 (always page0 :: nat session) 50 200 listings0 [] =
        (Inr r, [HttpGet (bulk_url deps0 50)]))"
proof -
  have h1: "has_sell_listings listings0" by (simp add: env_defs)
  have h2: "\<forall>tr url. \<exists>p. fst (fetch_page_listings deps0 (always page0 :: nat session) url tr) = Inr p
                    \<and> has_sell_listings p"
    by (simp add: fetch_page_listings_def io_bind_get io_bind_response_json env_defs)
  from fetch_plan [OF h1 h2 refl, of 0 1500 "[]"]
  have a: "\<exists>r. paginate deps0 (always page0 :: nat session) 0 1500 listings0 [] =
        (Inr r, map HttpGet
           [page_url deps0 0, page_url deps0 100, page_url deps0 200, page_url deps0 300,
            page_url deps0 400, page_url deps0 500, page_url deps0 600, page_url deps0 700,
            page_url deps0 800, page_url deps0 900, page_url deps0 1000, page_url deps0 1100,
            page_url deps0 1200, page_url deps0 1300, page_url deps0 1400])"
    by (auto simp: upt_rec)
  from fetch_plan [OF h1 h2 refl, of 50 200 "[]"]
  have b: "\<exists>r. paginate deps0 (always page0 :: nat session) 50 200 listings0 [] =
        (Inr r, [HttpGet (bulk_url deps0 50)])"
    by auto
  from h1 h2 a b show ?thesis by blast
qed

section \<open>The total price of a buy order\<close>

lemma parse_plain_exp: "parse_plain p = Some d \<Longrightarrow> dexp d \<le> 0"
  by (auto simp: parse_plain_def Let_def split: prod.splits if_splits)

lemma dec_fix_exact:
  assumes "num_digits (dint d) \<le> 28" and "Etiny \<le> dexp d" and "dexp d \<le> 0"
  shows "dec_fix d = Inr d"
proof (cases "dint d = 0")
  case True
  from assms(2,3) have "min (max (dexp d) Etiny) Emax = dexp d"
    by (simp add: Emax_def)
  with True show ?thesis by (simp add: dec_fix_def)
next
  case False
  let ?m = "int (num_digits (dint d)) + dexp d - prec"
  from assms(1,3) have le: "?m \<le> dexp d" by (simp add: prec_def)
  with assms(3) have "\<not> ?m > Etop" by (simp add: Etop_def Emax_def prec_def)
  moreover from le assms(2) have "\<not> dexp d < (if ?m < Etiny then Etiny else ?m)" by simp
  ultimately show ?thesis using False by (simp add: dec_fix_def Let_def)
qed

lemma of_int_sign_abs: "(of_int q :: rat) = (if q < 0 then - 1 else 1) * of_nat (nat \<bar>q\<bar>)"
  by simp

lemma num_digits_rec: "num_digits n = (if n < 10 then 1 else num_digits (n div 10) + 1)"
  by (simp add: num_digits_def str_nat.simps [of n])

lemma num_digits_pos: "0 < num_digits n"
  by (subst num_digits_rec) simp

lemma num_digits_upper: "n < 10 ^ num_digits n"
proof (induction n rule: str_nat.induct)
  case (1 n)
  show ?case
  proof (cases "n < 10")
    case True
    then show ?thesis by (subst num_digits_rec) simp
  next
    case False
    with 1 have "n div 10 < 10 ^ num_digits (n div 10)" by simp
    then have "n < 10 ^ num_digits (n div 10) * 10"
      by (simp add: div_less_iff_less_mult)
    with False show ?thesis by (subst num_digits_rec) (simp add: mult.commute)
  qed
qed

lemma num_digits_lower: "0 < n \<Longrightarrow> 10 ^ (num_digits n - 1) \<le> n"
proof (induction n rule: str_nat.induct)
  case (1 n)
  show ?case
  proof (cases "n < 10")
    case True
    with 1(2) show ?thesis by (subst num_digits_rec) simp
  next
    case False
    then have pos: "0 < n div 10" by simp
    with 1(1) False have ih: "10 ^ (num_digits (n div 10) - 1) \<le> n div 10" by simp
    from num_digits_pos [of "n div 10"]
    have "(10::nat) ^ num_digits (n div 10) = 10 * 10 ^ (num_digits (n div 10) - 1)"
      by (cases "num_digits (n div 10)") simp_all
    also from ih have "\<dots> \<le> 10 * (n div 10)" by simp
    also have "\<dots> \<le> n" by simp
    finally show ?thesis using False by (subst num_digits_rec) simp
  qed
qed

lemma num_digits_le_iff: "0 < m \<Longrightarrow> num_digits n \<le> m \<longleftrightarrow> n < 10 ^ m"
proof
  assume "0 < m" and le: "num_digits n \<le> m"
  have "n < 10 ^ num_digits n" by (rule num_digits_upper)
  also from le have "(10::nat) ^ num_digits n \<le> 10 ^ m" by (simp add: power_increasing)
  finally show "n < 10 ^ m" .
next
  assume m: "0 < m" and lt: "n < 10 ^ m"
  show "num_digits n \<le> m"
  proof (cases "n = 0")
    case True
    with m show ?thesis by (subst num_digits_rec) simp
  next
    case False
    then have "10 ^ (num_digits n - 1) \<le> n" by (intro num_digits_lower) simp
    from this lt have "(10::nat) ^ (num_digits n - 1) < 10 ^ m" by (rule le_less_trans)
    then have "num_digits n - 1 < m" by (rule power_less_imp_less_exp [rotated]) simp
    then show ?thesis by simp
  qed
qed

lemma dec_fix_round:
  assumes L: "28 < num_digits (dint d)"
    and lo: "Etiny \<le> int (num_digits (dint d)) + dexp d - 28"
    and hi: "int (num_digits (dint d)) + dexp d - 28 < Etop"
    and k: "k = num_digits (dint d) - 28"
  shows "\<exists>r m. dec_fix d = Inr r \<and> dsign r = dsign d
           \<and> 10 ^ 27 \<le> dint r \<and> dint r < 10 ^ 28
           \<and> (of_nat (dint r) :: rat) * 10 powi (dexp r) = of_nat m * 10 powi (dexp d + int k)
           \<and> 2 * \<bar>int m * 10 ^ k - int (dint d)\<bar> \<le> 10 ^ k
           \<and> (2 * \<bar>int m * 10 ^ k - int (dint d)\<bar> = 10 ^ k \<longrightarrow> even m)"
proof -
  define c where "c = dint d"
  have Lk: "num_digits c = k + 28" using L k by (simp add: c_def)
  have kpos: "0 < k" using L k by simp
  have cpos: "0 < c"
  proof (rule ccontr)
    assume "\<not> 0 < c"
    then have "c = 0" by simp
    then have "num_digits c = 1" by (subst num_digits_rec) simp
    with Lk show False by simp
  qed
  have c_lo: "10 ^ 27 * 10 ^ k \<le> c"
    using num_digits_lower [OF cpos] Lk by (simp add: power_add mult.commute)
  have c_hi: "c < 10 ^ 28 * 10 ^ k"
    using num_digits_upper [of c] Lk by (simp add: power_add mult.commute)
  define q0 where "q0 = c div 10 ^ k"
  define r0 where "r0 = c mod 10 ^ k"
  define half :: nat where "half = 5 * 10 ^ (k - 1)"
  have cq: "c = q0 * 10 ^ k + r0" by (simp only: q0_def r0_def div_mult_mod_eq)
  have r0_lt: "r0 < 10 ^ k" by (simp add: r0_def)
  have pk: "(10::nat) ^ k = 2 * half"
    using kpos by (cases k) (simp_all add: half_def)
  have q_lo: "10 ^ 27 \<le> q0"
    using c_lo by (simp add: q0_def less_eq_div_iff_mult_less_eq)
  have q_hi: "q0 < 10 ^ 28"
    using c_hi by (simp add: q0_def div_less_iff_less_mult)
  define up where "up = round_up c k"
  have up_eq: "up \<longleftrightarrow> (half < r0 \<or> (r0 = half \<and> odd q0))"
    by (simp add: up_def round_up_def Let_def q0_def r0_def half_def)
  define m where "m = (if up then q0 + 1 else q0)"
  have m_hi: "m \<le> 10 ^ 28" using q_hi by (simp add: m_def)
  have m_lo: "10 ^ 27 \<le> m" using q_lo by (simp add: m_def)
  have carry: "int (num_digits m) > 28 \<longleftrightarrow> m = 10 ^ 28"
  proof -
    have "num_digits m \<le> 28 \<longleftrightarrow> m < 10 ^ 28" by (rule num_digits_le_iff) simp
    with m_hi show ?thesis by auto
  qed
  define r where "r = (if up \<and> m = 10 ^ 28
      then \<lparr>dsign = dsign d, dint = m div 10, dexp = dexp d + int k + 1\<rparr>
      else \<lparr>dsign = dsign d, dint = m, dexp = dexp d + int k\<rparr>)"
  have nz: "dint d \<noteq> 0" using cpos by (simp add: c_def)
  have len: "int (num_digits (dint d)) = int k + 28" using Lk by (simp add: c_def)
  have lo': "Etiny \<le> dexp d + int k" using lo len by simp
  have hi': "dexp d + int k < Etop" using hi len by simp
  have e0: "int (num_digits (dint d)) + dexp d - prec = dexp d + int k"
    using len by (simp add: prec_def)
  have c1: "\<not> Etop < dexp d + int k" using hi' by simp
  have c2: "\<not> dexp d + int k < Etiny" using lo' by simp
  have c3: "dexp d < dexp d + int k" using kpos by simp
  have c4: "\<not> Etop < dexp d + int k + 1" using hi' by simp
  have d1: "int (num_digits (dint d)) + dexp d - (dexp d + int k) = 28" using len by simp
  have d2: "nat (int (num_digits (dint d)) - 28) = k" using len by simp
  have d3: "\<not> (28::int) < 0" by simp
  have step: "dec_fix d =
      (if round_up (dint d) k \<and> prec < int (num_digits (dint d div 10 ^ k + 1))
       then Inr \<lparr>dsign = dsign d, dint = (dint d div 10 ^ k + 1) div 10, dexp = dexp d + int k + 1\<rparr>
       else Inr \<lparr>dsign = dsign d,
                 dint = (if round_up (dint d) k then dint d div 10 ^ k + 1 else dint d div 10 ^ k),
                 dexp = dexp d + int k\<rparr>)"
    unfolding dec_fix_def Let_def e0
    by (simp only: nz c1 c2 c3 c4 d1 d2 d3 if_False if_True split: if_splits) (auto simp: c4 c1)
  have fixd: "dec_fix d = Inr r"
  proof (cases up)
    case True
    then have ru: "round_up (dint d) k" by (simp add: up_def c_def)
    from True have m1: "dint d div 10 ^ k + 1 = m" by (simp add: m_def q0_def c_def)
    from carry have carry': "prec < int (num_digits m) \<longleftrightarrow> m = 10 ^ 28"
      by (simp add: prec_def)
    show ?thesis
      unfolding step r_def using True ru by (simp only: m1 carry' if_True simp_thms if_distrib [of Inr])
  next
    case False
    then have ru: "\<not> round_up (dint d) k" by (simp add: up_def c_def)
    from False have m0: "dint d div 10 ^ k = m" by (simp add: m_def q0_def c_def)
    show ?thesis
      unfolding step r_def using False ru by (simp only: m0 if_False simp_thms if_distrib [of Inr])
  qed
  have sgn: "dsign r = dsign d" by (simp add: r_def)
  have m_lt: "\<not> (up \<and> m = 10 ^ 28) \<Longrightarrow> m < 10 ^ 28"
    using q_hi m_hi by (cases up) (simp_all add: m_def)
  have b_lo: "10 ^ 27 \<le> dint r" using m_lo by (simp add: r_def)
  have b_hi: "dint r < 10 ^ 28" using m_lt by (simp add: r_def)
  have val: "(of_nat (dint r) :: rat) * 10 powi (dexp r) = of_nat m * 10 powi (dexp d + int k)"
    by (simp add: r_def power_int_add)
  define dl where "dl = int m * 10 ^ k - int (dint d)"
  have diff: "dl = (if up then 10 ^ k - int r0 else - int r0)"
    unfolding dl_def by (subst c_def [symmetric], subst cq) (simp add: m_def algebra_simps)
  have ipk: "(10::int) ^ k = 2 * int half"
    using pk by (metis of_nat_numeral of_nat_power of_nat_mult)
  have r0_lt': "int r0 < 10 ^ k" using r0_lt by (metis of_nat_numeral of_nat_power of_nat_less_iff)
  have near': "2 * \<bar>dl\<bar> \<le> 10 ^ k"
    using up_eq r0_lt' by (cases up) (auto simp: diff ipk)
  have tie': "2 * \<bar>dl\<bar> = 10 ^ k \<longrightarrow> even m"
  proof
    assume "2 * \<bar>dl\<bar> = 10 ^ k"
    with r0_lt' have "r0 = half" by (cases up) (auto simp: diff ipk)
    with up_eq show "even m" by (cases up) (auto simp: m_def)
  qed
  have near: "2 * \<bar>int m * 10 ^ k - int (dint d)\<bar> \<le> 10 ^ k"
    using near' by (simp only: dl_def)
  have tie: "2 * \<bar>int m * 10 ^ k - int (dint d)\<bar> = 10 ^ k \<longrightarrow> even m"
    using tie' by (simp only: dl_def)
  from fixd sgn b_lo b_hi val near tie show ?thesis by blast
qed

lemma dec_val_product:
  "dec_val \<lparr>dsign = (dsign d \<noteq> (q < 0)), dint = dint d * nat \<bar>q\<bar>, dexp = dexp d\<rparr>
     = dec_val d * of_int q"
  unfolding dec_val_def by (subst of_int_sign_abs) simp

lemma create_buy_order_request:
  assumes "was_login_executed self" and "price_total D p q = Inr ptotal"
  shows "snd (create_buy_order D self name p q game cur tr) =
           tr @ [HttpPost (COMMUNITY_URL D @ ''/market/createbuyorder/'')
                   [(''sessionid'', session_id self),
                    (''currency'', currency_value cur),
                    (''appid'', JStr (app_id game)),
                    (''market_hash_name'', JStr name),
                    (''price_total'', JStr ptotal),
                    (''quantity'', JInt q)]
                   [(''Referer'', COMMUNITY_URL D @ ''/market/listings/'' @ app_id game @ ''/''
                       @ quote D name)]]"
  using assms
  by (simp add: create_buy_order_def login_required_def io_bind_post io_bind_response_json
      io_bind_lift_apply Let_def split: sum.splits)

text \<open>
  The model agrees with \<^verbatim>\<open>decimal\<close> on a range of inputs: trailing zeros are kept, a
  negative zero keeps its sign, small values switch to the exponent form, and a product of
  more than 28 digits is rounded.
\<close>

lemma replicate_numeral: "replicate (numeral k) x = x # replicate (pred_numeral k) x"
  by (simp add: numeral_eq_Suc)

lemma price_total_examples:
  "price_total D ''0.33'' 3 = Inr ''0.99''"
  "price_total D ''-.5'' 2 = Inr ''-1.0''"
  "price_total D ''100'' 0 = Inr ''0''"
  "price_total D ''0.0000001'' 1 = Inr ''1E-7''"
  "price_total D ''0.00'' 5 = Inr ''0.00''"
  "price_total D ''1.'' 10 = Inr ''10''"
  "price_total D ''-0'' 3 = Inr ''-0''"
  "price_total D ''0.000'' (- 2) = Inr ''-0.000''"
  "price_total D ''1.10'' 100 = Inr ''110.00''"
  "price_total D ''0.0000001'' 10 = Inr ''0.0000010''"
  "price_total D ''9.999999999999999999999999999'' 9 = Inr ''89.99999999999999999999999999''"
  "price_total D ''12345678901234567890123456789'' 10 = Inr ''1.234567890123456789012345679E+29''"
  by (simp_all add: decimal_defs str_nat.simps Let_def replicate_numeral)

text \<open>
  Claim C9, as stated, has the total equal the exact product for every decimal price and
  integer quantity.  The product is computed in the default decimal context, which rounds
  to 28 significant digits: a price of 28 digits times 11 has 29 digits and is sent
  rounded.
\<close>

theorem precision_counterexample:
  "parse_plain ''1.000000000000000000000000001''
     = Some \<lparr>dsign = False, dint = 1000000000000000000000000001, dexp = - 27\<rparr>
   \<and> price_total deps0 ''1.000000000000000000000000001'' 11 = Inr ''11.00000000000000000000000001''
   \<and> parse_plain ''11.00000000000000000000000001''
     = Some \<lparr>dsign = False, dint = 1100000000000000000000000001, dexp = - 26\<rparr>
   \<and> dec_val \<lparr>dsign = False, dint = 1100000000000000000000000001, dexp = - 26\<rparr>
     \<noteq> dec_val \<lparr>dsign = False, dint = 1000000000000000000000000001, dexp = - 27\<rparr> * 11"
proof -
  have a: "parse_plain ''1.000000000000000000000000001''
     = Some \<lparr>dsign = False, dint = 1000000000000000000000000001, dexp = - 27\<rparr>"
    by (simp add: decimal_defs Let_def)
  have b: "price_total deps0 ''1.000000000000000000000000001'' 11 = Inr ''11.00000000000000000000000001''"
    by (simp add: decimal_defs str_nat.simps Let_def)
  have c: "parse_plain ''11.00000000000000000000000001''
     = Some \<lparr>dsign = False, dint = 1100000000000000000000000001, dexp = - 26\<rparr>"
    by (simp add: decimal_defs Let_def)
  have d: "dec_val \<lparr>dsign = False, dint = 1100000000000000000000000001, dexp = - 26\<rparr>
     \<noteq> dec_val \<lparr>dsign = False, dint = 1000000000000000000000000001, dexp = - 27\<rparr> * 11"
    by (simp add: dec_val_def power_int_def field_simps)
  from a b c d show ?thesis by simp
qed

text \<open>
  Claim C9, amended.  For every \<open>create_buy_order\<close> call of a logged-in client whose unit
  price is a plain decimal literal with no more than 1000026 digits after the point and
  whose quantity is an integer, the product being below \<open>10^999999\<close> in absolute value
  (the number of digits of its coefficient and its exponent add up to less than 1000000):
  the call sends one request, whose \<open>price_total\<close> entry is the text of a decimal \<open>r\<close> that
  has the sign of the product.  When the product of the coefficients has at most 28 digits,
  the precision of the default decimal context, \<open>r\<close> is the exact product (the
  coefficients multiplied, the exponent of the price kept, so its value is the value of
  the price times the quantity).  When it has more, \<open>r\<close> is the product rounded half-even
  to 28 significant digits: its coefficient has 28 digits, its value is a multiple \<open>m\<close> of
  the unit \<open>ulp\<close> of the 28th digit of the product, it is no further than half a unit from
  the product, and \<open>m\<close> is even when it is exactly half a unit away.
\<close>

theorem price_total_exact:
  assumes "was_login_executed self"
    and "parse_plain p = Some d"
    and "Etiny \<le> dexp d"
    and "c = dint d * nat \<bar>q\<bar>"
    and "int (num_digits c) + dexp d - prec < Etop"
    and "k = num_digits c - 28"
    and "ulp = (10::rat) powi (dexp d + int k)"
  shows "\<exists>r. snd (create_buy_order D self name p q game cur tr) =
               tr @ [HttpPost (COMMUNITY_URL D @ ''/market/createbuyorder/'')
                       [(''sessionid'', session_id self),
                        (''currency'', currency_value cur),
                        (''appid'', JStr (app_id game)),
                        (''market_hash_name'', JStr name),
                        (''price_total'', JStr (dec_str r)),
                        (''quantity'', JInt q)]
                       [(''Referer'', COMMUNITY_URL D @ ''/market/listings/'' @ app_id game @ ''/''
                           @ quote D name)]]
           \<and> price_total D p q = Inr (dec_str r)
           \<and> dsign r = (dsign d \<noteq> (q < 0))
           \<and> (num_digits c \<le> 28 \<longrightarrow>
                 dint r = c \<and> dexp r = dexp d \<and> dec_val r = dec_val d * of_int q)
           \<and> (28 < num_digits c \<longrightarrow>
                 10 ^ 27 \<le> dint r \<and> dint r < 10 ^ 28
               \<and> \<bar>dec_val r - dec_val d * of_int q\<bar> \<le> ulp / 2
               \<and> (\<exists>m. \<bar>dec_val r\<bar> = of_nat m * ulp
                     \<and> (\<bar>dec_val r - dec_val d * of_int q\<bar> = ulp / 2 \<longrightarrow> even m)))"
proof -
  let ?d' = "\<lparr>dsign = (dsign d \<noteq> (q < 0)), dint = c, dexp = dexp d\<rparr>"
  have mul: "dec_mul d (dec_of_int q) = dec_fix ?d'"
    by (simp add: dec_mul_def dec_of_int_def assms(4))
  have exact: "dec_val ?d' = dec_val d * of_int q"
    unfolding assms(4) by (rule dec_val_product)
  have e0: "dexp d \<le> 0" by (rule parse_plain_exp [OF assms(2)])
  have main: "\<exists>r. dec_fix ?d' = Inr r
           \<and> dsign r = (dsign d \<noteq> (q < 0))
           \<and> (num_digits c \<le> 28 \<longrightarrow>
                 dint r = c \<and> dexp r = dexp d \<and> dec_val r = dec_val d * of_int q)
           \<and> (28 < num_digits c \<longrightarrow>
                 10 ^ 27 \<le> dint r \<and> dint r < 10 ^ 28
               \<and> \<bar>dec_val r - dec_val d * of_int q\<bar> \<le> ulp / 2
               \<and> (\<exists>m. \<bar>dec_val r\<bar> = of_nat m * ulp
                     \<and> (\<bar>dec_val r - dec_val d * of_int q\<bar> = ulp / 2 \<longrightarrow> even m)))"
  proof (cases "num_digits c \<le> 28")
    case True
    have "dec_fix ?d' = Inr ?d'"
      using True assms(3) e0 by (intro dec_fix_exact) simp_all
    with True exact show ?thesis by simp
  next
    case False
    then have L: "28 < num_digits (dint ?d')" by simp
    have lo: "Etiny \<le> int (num_digits (dint ?d')) + dexp ?d' - 28"
      using False assms(3) by simp
    have hi: "int (num_digits (dint ?d')) + dexp ?d' - 28 < Etop"
      using assms(5) by (simp add: prec_def)
    have k: "k = num_digits (dint ?d') - 28" using assms(6) by simp
    from dec_fix_round [OF L lo hi k]
    obtain r m where r: "dec_fix ?d' = Inr r" and sg: "dsign r = (dsign d \<noteq> (q < 0))"
      and b: "10 ^ 27 \<le> dint r" "dint r < 10 ^ 28"
      and val: "(of_nat (dint r) :: rat) * 10 powi (dexp r) = of_nat m * 10 powi (dexp d + int k)"
      and near: "2 * \<bar>int m * 10 ^ k - int c\<bar> \<le> 10 ^ k"
      and tie: "2 * \<bar>int m * 10 ^ k - int c\<bar> = 10 ^ k \<longrightarrow> even m"
      by auto
    define E where "E = (10::rat) powi (dexp d)"
    define dl where "dl = int m * 10 ^ k - int c"
    define s where "s = (if dsign r then - 1 else 1 :: rat)"
    have Epos: "0 < E" by (simp add: E_def)
    have ulpE: "ulp = E * 10 ^ k" by (simp add: assms(7) E_def power_int_add)
    have vr: "dec_val r = s * (of_nat m * ulp)"
      using val by (simp add: dec_val_def s_def assms(7) mult.assoc)
    have vx: "dec_val d * of_int q = s * (of_nat c * E)"
    proof -
      have "dec_val ?d' = s * (of_nat c * E)" by (simp add: dec_val_def s_def E_def sg)
      with exact show ?thesis by (simp only:)
    qed
    have "dec_val r - dec_val d * of_int q = s * E * of_int dl"
      unfolding vr vx ulpE dl_def by (simp add: algebra_simps)
    then have ad: "\<bar>dec_val r - dec_val d * of_int q\<bar> = E * of_int \<bar>dl\<bar>"
      using Epos by (simp add: abs_mult s_def)
    have half: "ulp / 2 = E * (10 ^ k / 2)" by (simp add: ulpE)
    have le_iff: "\<bar>dec_val r - dec_val d * of_int q\<bar> \<le> ulp / 2 \<longleftrightarrow> 2 * \<bar>dl\<bar> \<le> 10 ^ k"
    proof -
      have "\<bar>dec_val r - dec_val d * of_int q\<bar> \<le> ulp / 2
              \<longleftrightarrow> (of_int \<bar>dl\<bar> :: rat) \<le> 10 ^ k / 2"
        using Epos by (simp only: ad half mult_le_cancel_left_pos)
      also have "\<dots> \<longleftrightarrow> (of_int (2 * \<bar>dl\<bar>) :: rat) \<le> of_int (10 ^ k)"
        by (simp add: mult.commute)
      also have "\<dots> \<longleftrightarrow> 2 * \<bar>dl\<bar> \<le> 10 ^ k" by (simp only: of_int_le_iff)
      finally show ?thesis .
    qed
    have eq_iff: "\<bar>dec_val r - dec_val d * of_int q\<bar> = ulp / 2 \<longleftrightarrow> 2 * \<bar>dl\<bar> = 10 ^ k"
    proof -
      have "\<bar>dec_val r - dec_val d * of_int q\<bar> = ulp / 2
              \<longleftrightarrow> (of_int \<bar>dl\<bar> :: rat) = 10 ^ k / 2"
        using Epos by (simp only: ad half) simp
      also have "\<dots> \<longleftrightarrow> (of_int (2 * \<bar>dl\<bar>) :: rat) = of_int (10 ^ k)"
        by (auto simp: mult.commute)
      also have "\<dots> \<longleftrightarrow> 2 * \<bar>dl\<bar> = 10 ^ k" by (simp only: of_int_eq_iff)
      finally show ?thesis .
    qed
    have absr: "\<bar>dec_val r\<bar> = of_nat m * ulp"
      by (simp add: vr abs_mult s_def assms(7))
    from near le_iff have c1: "\<bar>dec_val r - dec_val d * of_int q\<bar> \<le> ulp / 2"
      by (simp add: dl_def)
    from tie eq_iff have c2: "\<bar>dec_val r - dec_val d * of_int q\<bar> = ulp / 2 \<longrightarrow> even m"
      by (simp add: dl_def)
    from False r sg b c1 absr c2 show ?thesis by auto
  qed
  then obtain r where r: "dec_fix ?d' = Inr r"
    and rest: "dsign r = (dsign d \<noteq> (q < 0))"
       "num_digits c \<le> 28 \<longrightarrow>
                 dint r = c \<and> dexp r = dexp d \<and> dec_val r = dec_val d * of_int q"
       "28 < num_digits c \<longrightarrow>
                 10 ^ 27 \<le> dint r \<and> dint r < 10 ^ 28
               \<and> \<bar>dec_val r - dec_val d * of_int q\<bar> \<le> ulp / 2
               \<and> (\<exists>m. \<bar>dec_val r\<bar> = of_nat m * ulp
                     \<and> (\<bar>dec_val r - dec_val d * of_int q\<bar> = ulp / 2 \<longrightarrow> even m))"
    by blast
  from r mul assms(2) have total: "price_total D p q = Inr (dec_str r)"
    by (simp add: price_total_def)
  from create_buy_order_request [OF assms(1) total] total rest
  show ?thesis by blast
qed

theorem price_total_exact_witness:
  "was_login_executed (logged_in (scripted [] [json_response (JObj [(''success'', JInt 1)])]
      ([] :: nat list)))
   \<and> parse_plain ''0.33'' = Some \<lparr>dsign = False, dint = 33, dexp = - 2\<rparr>
   \<and> num_digits (33 * nat \<bar>3\<bar>) \<le> 28
   \<and> snd (create_buy_order deps0
        (logged_in (scripted [] [json_response (JObj [(''success'', JInt 1)])] ([] :: nat list)))
        ''AK'' ''0.33'' 3 game0 usd [])
      = [HttpPost (COMMUNITY_URL deps0 @ ''/market/createbuyorder/'')
           [(''sessionid'', JStr ''5e55''),
            (''currency'', JInt 1),
            (''appid'', JStr ''730''),
            (''market_hash_name'', JStr ''AK''),
            (''price_total'', JStr ''0.99''),
            (''quantity'', JInt 3)]
           [(''Referer'', COMMUNITY_URL deps0 @ ''/market/listings/'' @ ''730'' @ ''/'' @ ''AK'')]]
   \<and> parse_plain ''1.000000000000000000000000001''
        = Some \<lparr>dsign = False, dint = 1000000000000000000000000001, dexp = - 27\<rparr>
   \<and> 28 < num_digits (1000000000000000000000000001 * nat \<bar>11\<bar>)
   \<and> snd (create_buy_order deps0
        (logged_in (scripted [] [json_response (JObj [(''success'', JInt 1)])] ([] :: nat list)))
        ''AK'' ''1.000000000000000000000000001'' 11 game0 usd [])
      = [HttpPost (COMMUNITY_URL deps0 @ ''/market/createbuyorder/'')
           [(''sessionid'', JStr ''5e55''),
            (''currency'', JInt 1),
            (''appid'', JStr ''730''),
            (''market_hash_name'', JStr ''AK''),
            (''price_total'', JStr ''11.00000000000000000000000001''),
            (''quantity'', JInt 11)]
           [(''Referer'', COMMUNITY_URL deps0 @ ''/market/listings/'' @ ''730'' @ ''/'' @ ''AK'')]]"
proof -
  let ?M = "logged_in (scripted [] [json_response (JObj [(''success'', JInt 1)])] ([] :: nat list))"
  let ?d1 = "\<lparr>dsign = False, dint = 33, dexp = - 2\<rparr>"
  let ?d2 = "\<lparr>dsign = False, dint = 1000000000000000000000000001, dexp = - 27\<rparr>"
  have h1: "was_login_executed ?M" by (simp add: session_defs)
  have sid: "session_id ?M = JStr ''5e55''" by (simp add: session_defs)
  have env: "currency_value usd = JInt 1" "app_id game0 = ''730''" "quote deps0 ''AK'' = ''AK''"
    by (simp_all add: usd_def game0_def deps0_def)
  have a2: "parse_plain ''0.33'' = Some ?d1" by (simp add: decimal_defs Let_def)
  have a3: "Etiny \<le> dexp ?d1" by (simp add: Etiny_def Emin_def prec_def)
  have n1: "num_digits (33 * nat \<bar>3\<bar>) = 2" by (simp add: num_digits_def str_nat.simps)
  have a5: "int (num_digits (dint ?d1 * nat \<bar>3\<bar>)) + dexp ?d1 - prec < Etop"
    using n1 by (simp add: prec_def Etop_def Emax_def)
  have t1: "price_total deps0 ''0.33'' 3 = Inr ''0.99''"
    by (simp add: decimal_defs str_nat.simps Let_def)
  from price_total_exact [OF h1 a2 a3 refl a5 refl refl, of deps0 "''AK''" game0 usd "[]"] t1
  have run1: "snd (create_buy_order deps0 ?M ''AK'' ''0.33'' 3 game0 usd [])
      = [HttpPost (COMMUNITY_URL deps0 @ ''/market/createbuyorder/'')
           [(''sessionid'', JStr ''5e55''),
            (''currency'', JInt 1),
            (''appid'', JStr ''730''),
            (''market_hash_name'', JStr ''AK''),
            (''price_total'', JStr ''0.99''),
            (''quantity'', JInt 3)]
           [(''Referer'', COMMUNITY_URL deps0 @ ''/market/listings/'' @ ''730'' @ ''/'' @ ''AK'')]]"
    by (auto simp: sid env)
  have b2: "parse_plain ''1.000000000000000000000000001'' = Some ?d2"
    by (simp add: decimal_defs Let_def)
  have b3: "Etiny \<le> dexp ?d2" by (simp add: Etiny_def Emin_def prec_def)
  have n2: "num_digits (1000000000000000000000000001 * nat \<bar>11\<bar>) = 29"
    by (simp add: num_digits_def str_nat.simps)
  have b5: "int (num_digits (dint ?d2 * nat \<bar>11\<bar>)) + dexp ?d2 - prec < Etop"
    using n2 by (simp add: prec_def Etop_def Emax_def)
  have t2: "price_total deps0 ''1.000000000000000000000000001'' 11
      = Inr ''11.00000000000000000000000001''"
    by (simp add: decimal_defs str_nat.simps Let_def)
  from price_total_exact [OF h1 b2 b3 refl b5 refl refl, of deps0 "''AK''" game0 usd "[]"] t2
  have run2: "snd (create_buy_order deps0 ?M ''AK'' ''1.000000000000000000000000001'' 11 game0 usd [])
      = [HttpPost (COMMUNITY_URL deps0 @ ''/market/createbuyorder/'')
           [(''sessionid'', JStr ''5e55''),
            (''currency'', JInt 1),
            (''appid'', JStr ''730''),
            (''market_hash_name'', JStr ''AK''),
            (''price_total'', JStr ''11.00000000000000000000000001''),
            (''quantity'', JInt 11)]
           [(''Referer'', COMMUNITY_URL deps0 @ ''/market/listings/'' @ ''730'' @ ''/'' @ ''AK'')]]"
    by (auto simp: sid env)
  from h1 a2 n1 run1 b2 n2 run2 show ?thesis by simp
qed

end
